theory Spec2Isabelle
  imports Complex_Main "HOL-Library.Log_Nat"
begin

section \<open>The generation gateway: data model\<close>

text \<open>
  The development embeds the two transports of the gateway:
  \<^item> \<^verbatim>\<open>mcp-servers/generation-server/server.py\<close> (tool-style transport); its
    \<^verbatim>\<open>OllamaClient\<close> methods carry the prefix \<open>mcp_\<close>;
  \<^item> \<^verbatim>\<open>simple_generation_server.py\<close> (direct transport); its
    \<^verbatim>\<open>OllamaClient\<close> methods carry the prefix \<open>simple_\<close>.

  Conventions of the embedding.
  \<^item> A Python exception is a value of \<open>exn\<close>; \<open>str e\<close> is Python's \<^verbatim>\<open>str(e)\<close>.
    A function that may raise returns \<open>exn + 'a\<close>, \<open>Inl\<close> being the raise.
  \<^item> The \<^verbatim>\<open>httpx.AsyncClient\<close> held by an \<^verbatim>\<open>OllamaClient\<close> is the function
    \<open>client\<close>: it answers a request either by raising (connection refused, timeout:
    \<open>Inl\<close>) or with a \<open>Response\<close> object. Of that object the code observes
    \<^verbatim>\<open>status_code\<close>, \<^verbatim>\<open>raise_for_status()\<close> (\<open>Some e\<close> when it raises) and
    \<^verbatim>\<open>json()\<close> (\<open>Inl e\<close> when the body does not parse).
  \<^item> Every operation returns, next to its result, the list of requests it issued to
    the backend, in order.
  \<^item> Dictionaries read at the boundary are records of optional fields typed as the
    declared schemas and the backend wire contract type them; \<open>None\<close> is an absent key.
  \<^item> A Python \<^verbatim>\<open>float\<close> is the real number it denotes. The one float operation of
    the code, \<^verbatim>\<open>int / 1e6\<close>, is modelled with its double-precision rounding and its
    \<^verbatim>\<open>OverflowError\<close> (section on the float quotient below).
  \<^item> Logging is not modelled.
\<close>

datatype exn = Exception string | ValueError string | OverflowError string

fun str :: "exn \<Rightarrow> string" where
  "str (Exception m) = m"
| "str (ValueError m) = m"
| "str (OverflowError m) = m"

record ModelDescriptor =
  md_name :: "string option"
  md_size :: "int option"

record ChatMessage =
  role :: string
  content :: string

text \<open>The \<^verbatim>\<open>message\<close> object of a chat reply; both keys may be absent.\<close>

record message_json =
  msg_role :: "string option"
  msg_content :: "string option"

text \<open>The JSON object of a backend reply, restricted to the keys the code reads.\<close>

record response_json =
  rj_models :: "ModelDescriptor list option"
  rj_response :: "string option"
  rj_message :: "message_json option"
  rj_eval_count :: "int option"
  rj_eval_duration :: "int option"

record Response =
  status_code :: nat
  raise_for_status :: "exn option"
  json :: "exn + response_json"

record options =
  opt_temperature :: real
  opt_num_predict :: "int option"

text \<open>
  The request body built by \<^verbatim>\<open>generate\<close> and \<^verbatim>\<open>chat\<close>: the keys \<^verbatim>\<open>model\<close>,
  \<^verbatim>\<open>stream\<close> and \<^verbatim>\<open>options\<close> are always there, \<^verbatim>\<open>prompt\<close>, \<^verbatim>\<open>messages\<close> and
  \<^verbatim>\<open>system\<close> only when the code sets them.
\<close>

record payload =
  p_model :: string
  p_prompt :: "string option"
  p_messages :: "ChatMessage list option"
  p_stream :: bool
  p_system :: "string option"
  p_options :: options

datatype request = GET string | POST string payload

record OllamaClient =
  base_url :: string
  client :: "request \<Rightarrow> exn + Response"

text \<open>\<^verbatim>\<open>base_url.rstrip("/")\<close> of the constructor.\<close>

definition rstrip_slash :: "string \<Rightarrow> string" where
  "rstrip_slash s = rev (dropWhile (\<lambda>c. c = CHR ''/'') (rev s))"

definition OllamaClient_init :: "string \<Rightarrow> (request \<Rightarrow> exn + Response) \<Rightarrow> OllamaClient" where
  "OllamaClient_init url c = \<lparr>base_url = rstrip_slash url, client = c\<rparr>"

text \<open>The prompts and the \<^verbatim>\<open>num_predict\<close> options carried by a list of requests.\<close>

fun prompts_sent :: "request list \<Rightarrow> string option list" where
  "prompts_sent [] = []"
| "prompts_sent (GET u # rs) = prompts_sent rs"
| "prompts_sent (POST u p # rs) = p_prompt p # prompts_sent rs"

fun num_predicts_sent :: "request list \<Rightarrow> int option list" where
  "num_predicts_sent [] = []"
| "num_predicts_sent (GET u # rs) = num_predicts_sent rs"
| "num_predicts_sent (POST u p # rs) = opt_num_predict (p_options p) # num_predicts_sent rs"

text \<open>
  The three steps every \<^verbatim>\<open>try\<close> block of the clients performs on a request:
  await the reply, \<^verbatim>\<open>raise_for_status()\<close>, \<^verbatim>\<open>json()\<close>. The result is the exception
  raised by the first step that fails, or the parsed object.
\<close>

definition fetch_json :: "OllamaClient \<Rightarrow> request \<Rightarrow> exn + response_json" where
  "fetch_json self rq =
     (case client self rq of
        Inl e \<Rightarrow> Inl e
      | Inr response \<Rightarrow>
          (case raise_for_status response of
             Some e \<Rightarrow> Inl e
           | None \<Rightarrow> json response))"

section \<open>Tool-style transport (server.py)\<close>

subsection \<open>OllamaClient\<close>

definition mcp_list_models :: "OllamaClient \<Rightarrow> (exn + ModelDescriptor list) \<times> request list" where
  "mcp_list_models self =
     (let rq = GET (base_url self @ ''/api/tags'') in
      (case fetch_json self rq of
         Inr data \<Rightarrow> Inr (case rj_models data of None \<Rightarrow> [] | Some ms \<Rightarrow> ms)
       | Inl e \<Rightarrow> Inr [],
       [rq]))"

definition mcp_generate_payload ::
  "string \<Rightarrow> string \<Rightarrow> string option \<Rightarrow> string option \<Rightarrow> real \<Rightarrow> int option \<Rightarrow> payload" where
  "mcp_generate_payload prompt model system context temperature max_tokens =
     (let full_prompt =
            (case context of
               None \<Rightarrow> prompt
             | Some c \<Rightarrow>
                 if c \<noteq> [] then ''Context:\<newline>'' @ c @ ''\<newline>\<newline>Question: '' @ prompt
                 else prompt);
          payload = \<lparr>p_model = model, p_prompt = Some full_prompt, p_messages = None,
                     p_stream = False, p_system = None,
                     p_options = \<lparr>opt_temperature = temperature, opt_num_predict = None\<rparr>\<rparr>;
          payload =
            (case system of
               None \<Rightarrow> payload
             | Some s \<Rightarrow> if s \<noteq> [] then payload\<lparr>p_system := Some s\<rparr> else payload);
          payload =
            (case max_tokens of
               None \<Rightarrow> payload
             | Some n \<Rightarrow>
                 if n \<noteq> 0
                 then payload\<lparr>p_options := (p_options payload)\<lparr>opt_num_predict := Some n\<rparr>\<rparr>
                 else payload)
      in payload)"

definition mcp_generate ::
  "OllamaClient \<Rightarrow> string \<Rightarrow> string \<Rightarrow> string option \<Rightarrow> string option \<Rightarrow> real \<Rightarrow> int option
     \<Rightarrow> (exn + string) \<times> request list" where
  "mcp_generate self prompt model system context temperature max_tokens =
     (let rq = POST (base_url self @ ''/api/generate'')
                 (mcp_generate_payload prompt model system context temperature max_tokens) in
      (case fetch_json self rq of
         Inr result \<Rightarrow> Inr (case rj_response result of None \<Rightarrow> [] | Some s \<Rightarrow> s)
       | Inl e \<Rightarrow> Inl e,
       [rq]))"

definition mcp_chat_payload :: "ChatMessage list \<Rightarrow> string \<Rightarrow> real \<Rightarrow> int option \<Rightarrow> payload" where
  "mcp_chat_payload messages model temperature max_tokens =
     (let payload = \<lparr>p_model = model, p_prompt = None, p_messages = Some messages,
                     p_stream = False, p_system = None,
                     p_options = \<lparr>opt_temperature = temperature, opt_num_predict = None\<rparr>\<rparr>;
          payload =
            (case max_tokens of
               None \<Rightarrow> payload
             | Some n \<Rightarrow>
                 if n \<noteq> 0
                 then payload\<lparr>p_options := (p_options payload)\<lparr>opt_num_predict := Some n\<rparr>\<rparr>
                 else payload)
      in payload)"

definition mcp_chat ::
  "OllamaClient \<Rightarrow> ChatMessage list \<Rightarrow> string \<Rightarrow> real \<Rightarrow> int option
     \<Rightarrow> (exn + string) \<times> request list" where
  "mcp_chat self messages model temperature max_tokens =
     (let rq = POST (base_url self @ ''/api/chat'')
                 (mcp_chat_payload messages model temperature max_tokens) in
      (case fetch_json self rq of
         Inr result \<Rightarrow>
           Inr (case rj_message result of
                  None \<Rightarrow> []
                | Some m \<Rightarrow> (case msg_content m of None \<Rightarrow> [] | Some s \<Rightarrow> s))
       | Inl e \<Rightarrow> Inl e,
       [rq]))"

definition mcp_check_health :: "OllamaClient \<Rightarrow> (exn + bool) \<times> request list" where
  "mcp_check_health self =
     (let rq = GET (base_url self @ ''/api/version'') in
      (case client self rq of
         Inr response \<Rightarrow> Inr (status_code response = 200)
       | Inl e \<Rightarrow> Inr False,
       [rq]))"

subsection \<open>handle_call_tool\<close>

text \<open>
  The \<^verbatim>\<open>arguments\<close> dictionary of a tool call, and equally the JSON body posted to
  the direct transport: every key may be absent.
\<close>

record arguments =
  arg_prompt :: "string option"
  arg_model :: "string option"
  arg_max_tokens :: "int option"
  arg_temperature :: "real option"
  arg_context :: "string option"
  arg_system_prompt :: "string option"
  arg_messages :: "ChatMessage list option"

text \<open>
  The \<^verbatim>\<open>text\<close> of a \<^verbatim>\<open>TextContent\<close> is either a string the handler built
  (\<open>Text\<close>) or the document
  \<^verbatim>\<open>json.dumps({"available_models": names, "count": n}, indent=2)\<close> of the
  \<^verbatim>\<open>list_models\<close> tool, kept as the value it serialises (\<open>Json_available_models\<close>).
\<close>

datatype text_payload = Text string | Json_available_models "string list" nat

datatype TextContent = TextContent (tc_type: string) (tc_text: text_payload)

definition handle_call_tool ::
  "OllamaClient \<Rightarrow> string \<Rightarrow> arguments \<Rightarrow> (exn + TextContent list) \<times> request list" where
  "handle_call_tool ollama name arguments =
     (if name = ''generate_text'' then
        (let prompt = (case arg_prompt arguments of None \<Rightarrow> [] | Some p \<Rightarrow> p);
             model = (case arg_model arguments of None \<Rightarrow> ''llama3.2:latest'' | Some m \<Rightarrow> m);
             max_tokens = arg_max_tokens arguments;
             temperature = (case arg_temperature arguments of None \<Rightarrow> 7 / 10 | Some t \<Rightarrow> t);
             context = arg_context arguments;
             system_prompt = arg_system_prompt arguments
         in (case mcp_generate ollama prompt model system_prompt context temperature max_tokens of
               (Inr result, tr) \<Rightarrow> (Inr [TextContent ''text'' (Text result)], tr)
             | (Inl e, tr) \<Rightarrow>
                 (Inr [TextContent ''text'' (Text (''Generation failed: '' @ str e))], tr)))
      else if name = ''chat_completion'' then
        (let messages = (case arg_messages arguments of None \<Rightarrow> [] | Some ms \<Rightarrow> ms);
             model = (case arg_model arguments of None \<Rightarrow> ''llama3.2:latest'' | Some m \<Rightarrow> m);
             temperature = (case arg_temperature arguments of None \<Rightarrow> 7 / 10 | Some t \<Rightarrow> t);
             max_tokens = arg_max_tokens arguments
         in (case mcp_chat ollama messages model temperature max_tokens of
               (Inr result, tr) \<Rightarrow> (Inr [TextContent ''text'' (Text result)], tr)
             | (Inl e, tr) \<Rightarrow>
                 (Inr [TextContent ''text'' (Text (''Chat completion failed: '' @ str e))], tr)))
      else if name = ''list_models'' then
        (case mcp_list_models ollama of
           (Inr models, tr) \<Rightarrow>
             (let model_list =
                    map (\<lambda>model. case md_name model of None \<Rightarrow> ''unknown'' | Some n \<Rightarrow> n) models
              in (Inr [TextContent ''text''
                        (Json_available_models model_list (length model_list))], tr))
         | (Inl e, tr) \<Rightarrow>
             (Inr [TextContent ''text'' (Text (''Failed to list models: '' @ str e))], tr))
      else (Inl (ValueError (''Unknown tool: '' @ name)), []))"

section \<open>Direct transport (simple_generation_server.py)\<close>

subsection \<open>Request models\<close>

record GenerateRequest =
  gr_prompt :: string
  gr_model :: string
  gr_temperature :: real
  gr_max_tokens :: "int option"
  gr_context :: "string option"
  gr_system_prompt :: "string option"

record ChatRequest =
  cr_messages :: "ChatMessage list"
  cr_model :: string
  cr_temperature :: real
  cr_max_tokens :: "int option"

subsection \<open>OllamaClient\<close>

definition simple_list_models :: "OllamaClient \<Rightarrow> (exn + response_json) \<times> request list" where
  "simple_list_models self =
     (let rq = GET (base_url self @ ''/api/tags'') in
      (case fetch_json self rq of
         Inr data \<Rightarrow> Inr data
       | Inl e \<Rightarrow> Inl e,
       [rq]))"

definition simple_generate_payload ::
  "string \<Rightarrow> string \<Rightarrow> string option \<Rightarrow> string option \<Rightarrow> real \<Rightarrow> int option \<Rightarrow> payload" where
  "simple_generate_payload prompt model system context temperature max_tokens =
     (let full_prompt =
            (case context of
               None \<Rightarrow> prompt
             | Some c \<Rightarrow>
                 if c \<noteq> [] then ''Context:\<newline>'' @ c @ ''\<newline>\<newline>Question: '' @ prompt
                 else prompt);
          payload = \<lparr>p_model = model, p_prompt = Some full_prompt, p_messages = None,
                     p_stream = False, p_system = None,
                     p_options = \<lparr>opt_temperature = temperature, opt_num_predict = None\<rparr>\<rparr>;
          payload =
            (case system of
               None \<Rightarrow> payload
             | Some s \<Rightarrow> if s \<noteq> [] then payload\<lparr>p_system := Some s\<rparr> else payload);
          payload =
            (case max_tokens of
               None \<Rightarrow> payload
             | Some n \<Rightarrow>
                 if n \<noteq> 0
                 then payload\<lparr>p_options := (p_options payload)\<lparr>opt_num_predict := Some n\<rparr>\<rparr>
                 else payload)
      in payload)"

definition simple_generate ::
  "OllamaClient \<Rightarrow> string \<Rightarrow> string \<Rightarrow> string option \<Rightarrow> string option \<Rightarrow> real \<Rightarrow> int option
     \<Rightarrow> (exn + response_json) \<times> request list" where
  "simple_generate self prompt model system context temperature max_tokens =
     (let rq = POST (base_url self @ ''/api/generate'')
                 (simple_generate_payload prompt model system context temperature max_tokens) in
      (case fetch_json self rq of
         Inr result \<Rightarrow> Inr result
       | Inl e \<Rightarrow> Inl e,
       [rq]))"

definition simple_chat_payload :: "ChatMessage list \<Rightarrow> string \<Rightarrow> real \<Rightarrow> int option \<Rightarrow> payload" where
  "simple_chat_payload messages model temperature max_tokens =
     (let payload = \<lparr>p_model = model, p_prompt = None, p_messages = Some messages,
                     p_stream = False, p_system = None,
                     p_options = \<lparr>opt_temperature = temperature, opt_num_predict = None\<rparr>\<rparr>;
          payload =
            (case max_tokens of
               None \<Rightarrow> payload
             | Some n \<Rightarrow>
                 if n \<noteq> 0
                 then payload\<lparr>p_options := (p_options payload)\<lparr>opt_num_predict := Some n\<rparr>\<rparr>
                 else payload)
      in payload)"

definition simple_chat ::
  "OllamaClient \<Rightarrow> ChatMessage list \<Rightarrow> string \<Rightarrow> real \<Rightarrow> int option
     \<Rightarrow> (exn + response_json) \<times> request list" where
  "simple_chat self messages model temperature max_tokens =
     (let rq = POST (base_url self @ ''/api/chat'')
                 (simple_chat_payload messages model temperature max_tokens) in
      (case fetch_json self rq of
         Inr result \<Rightarrow> Inr result
       | Inl e \<Rightarrow> Inl e,
       [rq]))"

definition simple_check_health :: "OllamaClient \<Rightarrow> (exn + bool) \<times> request list" where
  "simple_check_health self =
     (let rq = GET (base_url self @ ''/api/version'') in
      (case client self rq of
         Inr response \<Rightarrow> Inr (status_code response = 200)
       | Inl e \<Rightarrow> Inr False,
       [rq]))"

subsection \<open>The float quotient \<^verbatim>\<open>int / 1e6\<close>\<close>

text \<open>
  Python evaluates \<^verbatim>\<open>n / 1e6\<close> for an \<^verbatim>\<open>int\<close> \<open>n\<close> in two steps. First \<open>n\<close> is
  converted to a double, rounding to the nearest double with ties to the even mantissa;
  the conversion raises \<^verbatim>\<open>OverflowError\<close> when the rounded value does not fit. Then
  the double is divided by \<open>10\<^sup>6\<close> (which is a double), and the exact quotient is again
  rounded to the nearest double, ties to even.

  \<open>round_half_even p q\<close> is the integer nearest to \<open>p / q\<close> for \<open>q > 0\<close>, ties to
  even. \<open>int_to_float\<close> is the conversion; its result, being an integer-valued double,
  is kept as an integer. \<open>quotient_exponent p q\<close> is the binary exponent \<open>e\<close> of a
  positive quotient, \<open>2\<^sup>e \<le> p / q < 2\<^sup>e\<^sup>+\<^sup>1\<close>, and \<open>nearest_double p q\<close> rounds the
  quotient to 53 significant bits. A quotient of a non-zero integer by \<open>10\<^sup>6\<close> is never
  subnormal and never overflows, so those cases of the format do not arise.
\<close>

definition round_half_even :: "int \<Rightarrow> int \<Rightarrow> int" where
  "round_half_even p q =
     (let f = p div q; r = p mod q
      in if 2 * r < q then f else if q < 2 * r then f + 1 else if even f then f else f + 1)"

definition int_to_float :: "int \<Rightarrow> exn + int" where
  "int_to_float d =
     (let a = \<bar>d\<bar>; L = bitlen a in
      if L \<le> 53 then Inr d
      else (let s = nat (L - 53); n = round_half_even a (2 ^ s) * 2 ^ s in
            if 2 ^ 1024 \<le> n then Inl (OverflowError ''int too large to convert to float'')
            else Inr (sgn d * n)))"

definition quotient_exponent :: "int \<Rightarrow> int \<Rightarrow> int" where
  "quotient_exponent p q =
     (let b = bitlen p - bitlen q
      in if (if 0 \<le> b then q * 2 ^ nat b \<le> p else q \<le> p * 2 ^ nat (- b)) then b else b - 1)"

definition nearest_double :: "int \<Rightarrow> int \<Rightarrow> real" where
  "nearest_double p q =
     (let s = quotient_exponent p q - 52
      in if 0 \<le> s then real_of_int (round_half_even p (q * 2 ^ nat s) * 2 ^ nat s)
         else real_of_int (round_half_even (p * 2 ^ nat (- s)) q) / 2 ^ nat (- s))"

definition truediv_1e6 :: "int \<Rightarrow> exn + real" where
  "truediv_1e6 d =
     (case int_to_float d of
        Inl e \<Rightarrow> Inl e
      | Inr a \<Rightarrow>
          Inr (if a = 0 then 0 else real_of_int (sgn a) * nearest_double \<bar>a\<bar> 1000000))"

subsection \<open>Endpoints\<close>

text \<open>
  What an endpoint hands to the framework when it does not return a value:
  the \<^verbatim>\<open>HTTPException\<close> it raised (status code and detail), or the rejection of the
  request body by the request model, naming the missing field.
\<close>

datatype http_error = HTTPException nat string | RequestValidationError string

record ModelsResult =
  mr_models :: "string option list"
  mr_count :: nat

record GenerateResult =
  g_text :: string
  g_model :: string
  g_eval_count :: int
  g_eval_duration_ms :: real

record ChatResult =
  c_message :: message_json
  c_model :: string
  c_eval_count :: int
  c_eval_duration_ms :: real

definition list_models :: "OllamaClient \<Rightarrow> (http_error + ModelsResult) \<times> request list" where
  "list_models ollama =
     (case simple_list_models ollama of
        (Inr models_response, tr) \<Rightarrow>
          (let models = (case rj_models models_response of None \<Rightarrow> [] | Some ms \<Rightarrow> ms)
           in (Inr \<lparr>mr_models = map md_name models, mr_count = length models\<rparr>, tr))
      | (Inl e, tr) \<Rightarrow> (Inl (HTTPException 500 (''Failed to list models: '' @ str e)), tr))"

definition generate_text ::
  "OllamaClient \<Rightarrow> GenerateRequest \<Rightarrow> (http_error + GenerateResult) \<times> request list" where
  "generate_text ollama request =
     (case simple_generate ollama (gr_prompt request) (gr_model request)
             (gr_system_prompt request) (gr_context request) (gr_temperature request)
             (gr_max_tokens request) of
        (Inr result, tr) \<Rightarrow>
          (case truediv_1e6 (case rj_eval_duration result of None \<Rightarrow> 0 | Some d \<Rightarrow> d) of
             Inr ms \<Rightarrow>
               (Inr \<lparr>g_text = (case rj_response result of None \<Rightarrow> [] | Some s \<Rightarrow> s),
                     g_model = gr_model request,
                     g_eval_count = (case rj_eval_count result of None \<Rightarrow> 0 | Some n \<Rightarrow> n),
                     g_eval_duration_ms = ms\<rparr>, tr)
           | Inl e \<Rightarrow> (Inl (HTTPException 500 (''Generation failed: '' @ str e)), tr))
      | (Inl e, tr) \<Rightarrow> (Inl (HTTPException 500 (''Generation failed: '' @ str e)), tr))"

definition chat_completion ::
  "OllamaClient \<Rightarrow> ChatRequest \<Rightarrow> (http_error + ChatResult) \<times> request list" where
  "chat_completion ollama request =
     (let messages = map (\<lambda>msg. \<lparr>role = role msg, content = content msg\<rparr>) (cr_messages request)
      in (case simple_chat ollama messages (cr_model request) (cr_temperature request)
                 (cr_max_tokens request) of
            (Inr result, tr) \<Rightarrow>
              (case truediv_1e6 (case rj_eval_duration result of None \<Rightarrow> 0 | Some d \<Rightarrow> d) of
                 Inr ms \<Rightarrow>
                   (Inr \<lparr>c_message =
                           (case rj_message result of
                              None \<Rightarrow> \<lparr>msg_role = None, msg_content = None\<rparr>
                            | Some m \<Rightarrow> m),
                         c_model = cr_model request,
                         c_eval_count = (case rj_eval_count result of None \<Rightarrow> 0 | Some n \<Rightarrow> n),
                         c_eval_duration_ms = ms\<rparr>, tr)
               | Inl e \<Rightarrow>
                   (Inl (HTTPException 500 (''Chat completion failed: '' @ str e)), tr))
          | (Inl e, tr) \<Rightarrow>
              (Inl (HTTPException 500 (''Chat completion failed: '' @ str e)), tr)))"

text \<open>
  The request models as the framework applies them to a posted body before the endpoint
  runs: \<^verbatim>\<open>GenerateRequest\<close> declares \<^verbatim>\<open>prompt: str\<close> and \<^verbatim>\<open>ChatRequest\<close> declares
  \<^verbatim>\<open>messages: List[ChatMessage]\<close> without a default, so a body lacking the key is
  rejected; the other fields take their declared defaults. No field has a length
  constraint.
\<close>

definition GenerateRequest_validate :: "arguments \<Rightarrow> http_error + GenerateRequest" where
  "GenerateRequest_validate body =
     (case arg_prompt body of
        None \<Rightarrow> Inl (RequestValidationError ''prompt'')
      | Some p \<Rightarrow>
          Inr \<lparr>gr_prompt = p,
               gr_model = (case arg_model body of None \<Rightarrow> ''llama3.2:latest'' | Some m \<Rightarrow> m),
               gr_temperature = (case arg_temperature body of None \<Rightarrow> 7 / 10 | Some t \<Rightarrow> t),
               gr_max_tokens = arg_max_tokens body,
               gr_context = arg_context body,
               gr_system_prompt = arg_system_prompt body\<rparr>)"

definition ChatRequest_validate :: "arguments \<Rightarrow> http_error + ChatRequest" where
  "ChatRequest_validate body =
     (case arg_messages body of
        None \<Rightarrow> Inl (RequestValidationError ''messages'')
      | Some ms \<Rightarrow>
          Inr \<lparr>cr_messages = ms,
               cr_model = (case arg_model body of None \<Rightarrow> ''llama3.2:latest'' | Some m \<Rightarrow> m),
               cr_temperature = (case arg_temperature body of None \<Rightarrow> 7 / 10 | Some t \<Rightarrow> t),
               cr_max_tokens = arg_max_tokens body\<rparr>)"

text \<open>The routes \<^verbatim>\<open>POST /generate\<close> and \<^verbatim>\<open>POST /chat\<close>: validation, then the endpoint.\<close>

definition post_generate ::
  "OllamaClient \<Rightarrow> arguments \<Rightarrow> (http_error + GenerateResult) \<times> request list" where
  "post_generate ollama body =
     (case GenerateRequest_validate body of
        Inl err \<Rightarrow> (Inl err, [])
      | Inr request \<Rightarrow> generate_text ollama request)"

definition post_chat ::
  "OllamaClient \<Rightarrow> arguments \<Rightarrow> (http_error + ChatResult) \<times> request list" where
  "post_chat ollama body =
     (case ChatRequest_validate body of
        Inl err \<Rightarrow> (Inl err, [])
      | Inr request \<Rightarrow> chat_completion ollama request)"

section \<open>Example clients and requests\<close>

text \<open>
  A backend that answers every request with status 200 and one fixed object, a backend
  that refuses every connection, and the empty argument dictionary.
\<close>

definition reply_ok :: response_json where
  "reply_ok =
     \<lparr>rj_models = Some [\<lparr>md_name = Some ''llama3.2:latest'', md_size = Some 2019393189\<rparr>],
      rj_response = Some ''Graphs represent entities as nodes.'',
      rj_message = Some \<lparr>msg_role = Some ''assistant'', msg_content = Some ''Hello.''\<rparr>,
      rj_eval_count = Some 7,
      rj_eval_duration = Some 2000000\<rparr>"

definition ollama_up :: OllamaClient where
  "ollama_up =
     OllamaClient_init ''http://localhost:11434/''
       (\<lambda>rq. Inr \<lparr>status_code = 200, raise_for_status = None, json = Inr reply_ok\<rparr>)"

definition ollama_down :: OllamaClient where
  "ollama_down =
     OllamaClient_init ''http://localhost:11434''
       (\<lambda>rq. Inl (Exception ''All connection attempts failed''))"

definition no_arguments :: arguments where
  "no_arguments =
     \<lparr>arg_prompt = None, arg_model = None, arg_max_tokens = None, arg_temperature = None,
      arg_context = None, arg_system_prompt = None, arg_messages = None\<rparr>"

definition kg_arguments :: arguments where
  "kg_arguments =
     no_arguments\<lparr>arg_prompt := Some ''What is a knowledge graph?'',
                  arg_context := Some ''Graphs store entities.''\<rparr>"

definition kg_request :: GenerateRequest where
  "kg_request =
     \<lparr>gr_prompt = ''What is a knowledge graph?'', gr_model = ''llama3.2:latest'',
      gr_temperature = 7 / 10, gr_max_tokens = None,
      gr_context = Some ''Graphs store entities.'', gr_system_prompt = None\<rparr>"

definition hello_request :: ChatRequest where
  "hello_request =
     \<lparr>cr_messages = [\<lparr>role = ''user'', content = ''Hi''\<rparr>], cr_model = ''llama3.2:latest'',
      cr_temperature = 7 / 10, cr_max_tokens = None\<rparr>"

definition ollama_slow :: OllamaClient where
  "ollama_slow =
     OllamaClient_init ''http://localhost:11434''
       (\<lambda>rq. Inr \<lparr>status_code = 200, raise_for_status = None,
                  json = Inr (reply_ok\<lparr>rj_eval_duration := Some 9000000\<rparr>)\<rparr>)"

definition ollama_1ns :: OllamaClient where
  "ollama_1ns =
     OllamaClient_init ''http://localhost:11434''
       (\<lambda>rq. Inr \<lparr>status_code = 200, raise_for_status = None,
                  json = Inr (reply_ok\<lparr>rj_eval_duration := Some 1\<rparr>)\<rparr>)"

definition ollama_huge :: OllamaClient where
  "ollama_huge =
     OllamaClient_init ''http://localhost:11434''
       (\<lambda>rq. Inr \<lparr>status_code = 200, raise_for_status = None,
                  json = Inr (reply_ok\<lparr>rj_eval_duration := Some (10 ^ 400)\<rparr>)\<rparr>)"

definition ollama_error :: OllamaClient where
  "ollama_error =
     OllamaClient_init ''http://localhost:11434''
       (\<lambda>rq. Inr \<lparr>status_code = 500,
                  raise_for_status = Some (Exception ''Server error 500 Internal Server Error''),
                  json = Inr reply_ok\<rparr>)"

definition x_arguments :: arguments where
  "x_arguments = no_arguments\<lparr>arg_prompt := Some ''x''\<rparr>"

definition hello_arguments :: arguments where
  "hello_arguments = no_arguments\<lparr>arg_messages := Some [\<lparr>role = ''user'', content = ''Hi''\<rparr>]\<rparr>"

definition empty_prompt_arguments :: arguments where
  "empty_prompt_arguments = no_arguments\<lparr>arg_prompt := Some []\<rparr>"

definition empty_messages_arguments :: arguments where
  "empty_messages_arguments = no_arguments\<lparr>arg_messages := Some []\<rparr>"

section \<open>The float quotient: exactness, rounding error, overflow\<close>

lemma round_half_even_bounds:
  "p div q \<le> round_half_even p q \<and> round_half_even p q \<le> p div q + 1"
  by (simp add: round_half_even_def Let_def)

lemma round_half_even_exact:
  assumes "0 < q" and "q dvd p"
  shows "round_half_even p q = p div q"
  using assms by (simp add: round_half_even_def Let_def)

lemma round_half_even_error:
  assumes "0 < q"
  shows "2 * \<bar>round_half_even p q * q - p\<bar> \<le> q"
proof -
  define f where "f = p div q"
  define r where "r = p mod q"
  have p: "p = f * q + r"
    by (simp add: f_def r_def)
  have r: "0 \<le> r" "r < q"
    using assms by (simp_all add: r_def)
  have "round_half_even p q = f \<or> round_half_even p q = f + 1"
    by (auto simp: round_half_even_def Let_def f_def)
  then show ?thesis
  proof
    assume h: "round_half_even p q = f"
    then have "\<not> q < 2 * r"
      by (auto simp: round_half_even_def Let_def f_def [symmetric] r_def [symmetric]
            split: if_splits)
    with h p r show ?thesis by simp
  next
    assume h: "round_half_even p q = f + 1"
    then have "\<not> 2 * r < q"
      by (auto simp: round_half_even_def Let_def f_def [symmetric] r_def [symmetric]
            split: if_splits)
    moreover have "(f + 1) * q - p = q - r"
      by (simp add: p algebra_simps)
    ultimately show ?thesis using h r by simp
  qed
qed

lemma quotient_exponent_lower:
  assumes "0 < p" and "0 < q"
  shows "(0 \<le> quotient_exponent p q \<longrightarrow> q * 2 ^ nat (quotient_exponent p q) \<le> p)
       \<and> (quotient_exponent p q < 0 \<longrightarrow> q \<le> p * 2 ^ nat (- quotient_exponent p q))"
proof -
  define b where "b = bitlen p - bitlen q"
  define t where "t \<longleftrightarrow> (if 0 \<le> b then q * 2 ^ nat b \<le> p else q \<le> p * 2 ^ nat (- b))"
  have e: "quotient_exponent p q = (if t then b else b - 1)"
    by (simp add: quotient_exponent_def Let_def b_def t_def)
  show ?thesis
  proof (cases t)
    case True
    then show ?thesis
      by (auto simp: e t_def split: if_splits)
  next
    case False
    have lp: "2 ^ nat (bitlen p - 1) \<le> p" and uq: "q < 2 ^ nat (bitlen q)"
      using bitlen_bounds [OF assms(1)] bitlen_bounds [OF assms(2)] by simp_all
    have pos: "1 \<le> bitlen p" "1 \<le> bitlen q"
      using assms bitlen_eq_zero_iff [of p] bitlen_eq_zero_iff [of q] bitlen_nonneg [of p]
        bitlen_nonneg [of q] by linarith+
    show ?thesis
    proof (cases "0 \<le> b - 1")
      case True
      have "nat (bitlen q) + nat (b - 1) = nat (bitlen p - 1)"
        using True pos by (simp add: b_def)
      then have "(2::int) ^ nat (bitlen q) * 2 ^ nat (b - 1) = 2 ^ nat (bitlen p - 1)"
        by (simp add: power_add [symmetric])
      moreover have "q * 2 ^ nat (b - 1) \<le> 2 ^ nat (bitlen q) * 2 ^ nat (b - 1)"
        using uq by (intro mult_right_mono) simp_all
      ultimately have "q * 2 ^ nat (b - 1) \<le> p"
        using lp by linarith
      with True False show ?thesis by (simp add: e)
    next
      case neg: False
      have "nat (bitlen p - 1) + nat (- (b - 1)) = nat (bitlen q)"
        using neg pos by (simp add: b_def)
      then have "(2::int) ^ nat (bitlen p - 1) * 2 ^ nat (- (b - 1)) = 2 ^ nat (bitlen q)"
        by (simp add: power_add [symmetric])
      moreover have "2 ^ nat (bitlen p - 1) * 2 ^ nat (- (b - 1)) \<le> p * 2 ^ nat (- (b - 1))"
        using lp by (intro mult_right_mono) simp_all
      ultimately have "q \<le> p * 2 ^ nat (- (b - 1))"
        using uq by linarith
      with neg False show ?thesis by (simp add: e)
    qed
  qed
qed

lemma nearest_double_exact:
  assumes "0 < p" and "0 < q" and "q dvd p" and "p < q * 2 ^ 53"
  shows "nearest_double p q = real_of_int p / real_of_int q"
proof -
  define e where "e = quotient_exponent p q"
  have le: "e \<le> 52"
  proof (rule ccontr)
    assume "\<not> e \<le> 52"
    then have e53: "53 \<le> nat e" and "0 \<le> e" by simp_all
    then have "q * 2 ^ nat e \<le> p"
      using quotient_exponent_lower [OF assms(1,2)] by (simp add: e_def)
    moreover have "q * 2 ^ 53 \<le> q * 2 ^ nat e"
      using assms(2) e53 by (intro mult_left_mono power_increasing) simp_all
    ultimately show False using assms(4) by linarith
  qed
  have q: "real_of_int (p div q) = real_of_int p / real_of_int q"
    using assms(3) by (rule real_of_int_div)
  show ?thesis
  proof (cases "e = 52")
    case True
    then show ?thesis
      using assms by (simp add: nearest_double_def Let_def e_def [symmetric] round_half_even_exact q)
  next
    case False
    with le have neg: "\<not> 0 \<le> e - 52" by simp
    define k where "k = nat (52 - e)"
    have "q dvd p * 2 ^ k" using assms(3) by simp
    then have "round_half_even (p * 2 ^ k) q = (p * 2 ^ k) div q"
      using assms(2) by (simp add: round_half_even_exact)
    also have "\<dots> = (p div q) * 2 ^ k"
      using assms(3) by (simp add: dvd_div_mult)
    finally have "real_of_int (round_half_even (p * 2 ^ k) q) / 2 ^ k = real_of_int (p div q)"
      by simp
    with neg show ?thesis
      by (simp add: nearest_double_def Let_def e_def [symmetric] k_def [symmetric] q)
  qed
qed

lemma nearest_double_error:
  assumes "0 < p" and "0 < q"
  shows "\<bar>nearest_double p q - real_of_int p / real_of_int q\<bar>
           \<le> real_of_int p / real_of_int q / 2 ^ 53"
proof -
  define e where "e = quotient_exponent p q"
  have lower: "(0 \<le> e \<longrightarrow> q * 2 ^ nat e \<le> p) \<and> (e < 0 \<longrightarrow> q \<le> p * 2 ^ nat (- e))"
    using quotient_exponent_lower [OF assms] by (simp add: e_def)
  have rq: "0 < real_of_int q" using assms by simp
  show ?thesis
  proof (cases "0 \<le> e - 52")
    case True
    define k where "k = nat (e - 52)"
    define n where "n = round_half_even p (q * 2 ^ k)"
    have v: "nearest_double p q = real_of_int (n * 2 ^ k)"
      using True by (simp add: nearest_double_def Let_def e_def [symmetric] k_def n_def)
    have "nat e = k + 52" using True by (simp add: k_def)
    with lower True have lb: "q * 2 ^ k * 2 ^ 52 \<le> p"
      by (simp add: power_add mult.assoc)
    have "2 * \<bar>n * (q * 2 ^ k) - p\<bar> \<le> q * 2 ^ k"
      unfolding n_def using assms by (intro round_half_even_error) simp
    with lb have "\<bar>n * (q * 2 ^ k) - p\<bar> * 2 ^ 53 \<le> p" by simp
    then have "real_of_int (\<bar>n * (q * 2 ^ k) - p\<bar> * 2 ^ 53) \<le> real_of_int p"
      by (rule of_int_le_iff [THEN iffD2])
    then have i: "\<bar>real_of_int (n * 2 ^ k) * real_of_int q - real_of_int p\<bar> * 2 ^ 53
        \<le> real_of_int p"
      by (simp add: mult.assoc mult.left_commute mult.commute)
    have "\<bar>real_of_int (n * 2 ^ k) - real_of_int p / real_of_int q\<bar>
        = \<bar>real_of_int (n * 2 ^ k) * real_of_int q - real_of_int p\<bar> / real_of_int q"
      using rq by (simp add: field_simps abs_if)
    also have "\<dots> \<le> real_of_int p / 2 ^ 53 / real_of_int q"
      using i rq by (intro divide_right_mono) (simp_all add: field_simps)
    finally show ?thesis by (simp add: v field_simps)
  next
    case False
    define k where "k = nat (52 - e)"
    define n where "n = round_half_even (p * 2 ^ k) q"
    have v: "nearest_double p q = real_of_int n / 2 ^ k"
      using False by (simp add: nearest_double_def Let_def e_def [symmetric] k_def n_def)
    have lb: "q * 2 ^ 52 \<le> p * 2 ^ k"
    proof (cases "0 \<le> e")
      case True
      with False have "nat e + k = 52" by (simp add: k_def)
      then have "(2::int) ^ 52 = 2 ^ nat e * 2 ^ k" by (simp add: power_add [symmetric])
      moreover have "q * 2 ^ nat e * 2 ^ k \<le> p * 2 ^ k"
        using lower True by (intro mult_right_mono) simp_all
      ultimately show ?thesis by (simp add: mult.assoc)
    next
      case neg: False
      then have "k = nat (- e) + 52" by (simp add: k_def)
      then have "(2::int) ^ k = 2 ^ nat (- e) * 2 ^ 52" by (simp add: power_add)
      moreover have "q * 2 ^ 52 \<le> p * 2 ^ nat (- e) * 2 ^ 52"
        using lower neg by (intro mult_right_mono) simp_all
      ultimately show ?thesis by (simp add: mult.assoc)
    qed
    have "2 * \<bar>n * q - p * 2 ^ k\<bar> \<le> q"
      unfolding n_def using assms by (intro round_half_even_error)
    with lb have "\<bar>n * q - p * 2 ^ k\<bar> * 2 ^ 53 \<le> p * 2 ^ k" by simp
    then have "real_of_int (\<bar>n * q - p * 2 ^ k\<bar> * 2 ^ 53) \<le> real_of_int (p * 2 ^ k)"
      by (rule of_int_le_iff [THEN iffD2])
    then have i: "\<bar>real_of_int n * real_of_int q - real_of_int p * 2 ^ k\<bar> * 2 ^ 53
        \<le> real_of_int p * 2 ^ k"
      by simp
    have "\<bar>real_of_int n / 2 ^ k - real_of_int p / real_of_int q\<bar>
        = \<bar>real_of_int n * real_of_int q - real_of_int p * 2 ^ k\<bar> / (real_of_int q * 2 ^ k)"
      using rq by (simp add: field_simps abs_if)
    also have "\<dots> \<le> real_of_int p * 2 ^ k / 2 ^ 53 / (real_of_int q * 2 ^ k)"
      using i rq by (intro divide_right_mono) (simp_all add: field_simps)
    finally show ?thesis by (simp add: v field_simps)
  qed
qed

lemma large_int_mantissa:
  assumes "53 < bitlen a"
  shows "2 ^ 52 * 2 ^ nat (bitlen a - 53) \<le> a" and "a < 2 ^ 53 * 2 ^ nat (bitlen a - 53)"
proof -
  have pos: "0 < a"
    using assms bitlen_eq_zero_iff [of a] by (cases "0 < a") simp_all
  have "nat (bitlen a - 1) = 52 + nat (bitlen a - 53)" "nat (bitlen a) = 53 + nat (bitlen a - 53)"
    using assms by simp_all
  then have "(2::int) ^ nat (bitlen a - 1) = 2 ^ 52 * 2 ^ nat (bitlen a - 53)"
    and "(2::int) ^ nat (bitlen a) = 2 ^ 53 * 2 ^ nat (bitlen a - 53)"
    by (simp_all only: power_add)
  with bitlen_bounds [OF pos]
  show "2 ^ 52 * 2 ^ nat (bitlen a - 53) \<le> a" and "a < 2 ^ 53 * 2 ^ nat (bitlen a - 53)"
    by simp_all
qed

lemma large_int_rounding:
  assumes "53 < bitlen a"
  shows "2 ^ 52 \<le> a div 2 ^ nat (bitlen a - 53)"
    and "a div 2 ^ nat (bitlen a - 53) < 2 ^ 53"
    and "\<bar>round_half_even a (2 ^ nat (bitlen a - 53)) * 2 ^ nat (bitlen a - 53) - a\<bar> * 2 ^ 53 \<le> a"
proof -
  define M :: int where "M = 2 ^ nat (bitlen a - 53)"
  have M: "0 < M" by (simp add: M_def)
  have lo: "2 ^ 52 * M \<le> a" and hi: "a < 2 ^ 53 * M"
    using large_int_mantissa [OF assms] by (simp_all add: M_def)
  define f where "f = a div M"
  define r where "r = a mod M"
  have a: "a = f * M + r" by (simp add: f_def r_def)
  have r: "0 \<le> r" "r < M" using M by (simp_all add: r_def)
  have "2 ^ 52 \<le> f"
  proof (rule ccontr)
    assume "\<not> 2 ^ 52 \<le> f"
    then have "f + 1 \<le> 2 ^ 52" by simp
    then have "(f + 1) * M \<le> 2 ^ 52 * M"
      using M by (intro mult_right_mono) simp_all
    moreover have "a < (f + 1) * M"
      using a r by (simp add: algebra_simps)
    ultimately show False using lo by linarith
  qed
  then show "2 ^ 52 \<le> a div 2 ^ nat (bitlen a - 53)"
    by (simp add: f_def M_def)
  have "f < 2 ^ 53"
  proof (rule ccontr)
    assume "\<not> f < 2 ^ 53"
    then have "2 ^ 53 * M \<le> f * M"
      using M by (intro mult_right_mono) simp_all
    moreover have "f * M \<le> a" using a r by simp
    ultimately show False using hi by linarith
  qed
  then show "a div 2 ^ nat (bitlen a - 53) < 2 ^ 53"
    by (simp add: f_def M_def)
  have "2 * \<bar>round_half_even a M * M - a\<bar> \<le> M"
    using M by (rule round_half_even_error)
  with lo show "\<bar>round_half_even a (2 ^ nat (bitlen a - 53)) * 2 ^ nat (bitlen a - 53) - a\<bar>
      * 2 ^ 53 \<le> a"
    by (simp add: M_def [symmetric])
qed

lemma int_to_float_small:
  assumes "\<bar>d\<bar> < 2 ^ 53"
  shows "int_to_float d = Inr d"
proof -
  have "bitlen \<bar>d\<bar> \<le> 53"
    using assms by (simp add: bitlen_le_iff_power)
  then show ?thesis by (simp add: int_to_float_def Let_def)
qed

lemma int_to_float_large:
  assumes "53 < bitlen \<bar>d\<bar>"
  shows "int_to_float d =
           (if 2 ^ 1024 \<le> round_half_even \<bar>d\<bar> (2 ^ nat (bitlen \<bar>d\<bar> - 53))
                            * 2 ^ nat (bitlen \<bar>d\<bar> - 53)
            then Inl (OverflowError ''int too large to convert to float'')
            else Inr (sgn d * (round_half_even \<bar>d\<bar> (2 ^ nat (bitlen \<bar>d\<bar> - 53))
                                * 2 ^ nat (bitlen \<bar>d\<bar> - 53))))"
  using assms by (simp add: int_to_float_def Let_def)

lemma int_to_float_overflow:
  assumes "2 ^ 1024 - 2 ^ 970 \<le> \<bar>d\<bar>"
  shows "int_to_float d = Inl (OverflowError ''int too large to convert to float'')"
proof -
  define a where "a = \<bar>d\<bar>"
  define L where "L = bitlen a"
  define M :: int where "M = 2 ^ nat (L - 53)"
  define f where "f = a div M"
  define r where "r = a mod M"
  define n where "n = round_half_even a M"
  have "(2::int) ^ (nat 1024 - 1) \<le> a"
    using assms by (simp add: a_def)
  then have L1024: "1024 \<le> L"
    unfolding L_def by (subst bitlen_ge_iff_power) simp
  then have big: "53 < bitlen a" by (simp add: L_def)
  have M: "0 < M" by (simp add: M_def)
  have a: "a = f * M + r" by (simp add: f_def r_def)
  have r: "0 \<le> r" "r < M" using M by (simp_all add: r_def)
  have f: "2 ^ 52 \<le> f" "f < 2 ^ 53"
    using large_int_rounding(1,2) [OF big] by (simp_all add: f_def M_def L_def)
  have n: "f \<le> n"
    using round_half_even_bounds [of a M] by (simp add: n_def f_def)
  have "2 ^ 1024 \<le> n * M"
  proof (cases "L = 1024")
    case True
    then have Mv: "M = 2 ^ 971" by (simp add: M_def)
    define K where "K = (2 ^ 53 - 1) * M"
    have Ka: "K + 2 ^ 970 \<le> a"
      using assms by (simp add: K_def Mv a_def)
    have "a < (f + 1) * M"
      using a r by (simp add: algebra_simps)
    with Ka have "(2 ^ 53 - 1) * M < (f + 1) * M"
      unfolding K_def [symmetric] by simp
    then have "2 ^ 53 - 1 < f + 1"
      using M by (simp only: mult_less_cancel_right_pos)
    with f have fv: "f = 2 ^ 53 - 1" by simp
    have "a = K + r" using a by (simp add: fv K_def)
    with Ka have "2 ^ 970 \<le> r" by simp
    then have "\<not> 2 * r < M" by (simp add: Mv)
    moreover have "odd f" by (simp add: fv)
    ultimately have "n = f + 1"
      by (simp add: n_def round_half_even_def Let_def f_def [symmetric] r_def [symmetric])
    then show ?thesis by (simp add: fv Mv)
  next
    case False
    with L1024 have "972 \<le> nat (L - 53)" by simp
    then have "(2::int) ^ 972 \<le> M"
      unfolding M_def by (intro power_increasing) simp_all
    moreover have "2 ^ 52 \<le> n" using f n by simp
    ultimately have "2 ^ 52 * 2 ^ 972 \<le> n * M"
      by (intro mult_mono) simp_all
    then show ?thesis by simp
  qed
  then show ?thesis
    using big by (simp add: int_to_float_large n_def M_def L_def a_def)
qed

lemma int_to_float_rounds:
  assumes "\<bar>d\<bar> < 2 ^ 1024 - 2 ^ 970"
  shows "\<exists>a. int_to_float d = Inr a \<and> \<bar>a - d\<bar> * 2 ^ 53 \<le> \<bar>d\<bar> \<and> sgn a = sgn d"
proof (cases "bitlen \<bar>d\<bar> \<le> 53")
  case True
  then have "int_to_float d = Inr d" by (simp add: int_to_float_def Let_def)
  then show ?thesis by simp
next
  case False
  define a where "a = \<bar>d\<bar>"
  define L where "L = bitlen a"
  define M :: int where "M = 2 ^ nat (L - 53)"
  define f where "f = a div M"
  define r where "r = a mod M"
  define n where "n = round_half_even a M"
  from False have big: "53 < bitlen a" by (simp add: a_def)
  have M: "0 < M" by (simp add: M_def)
  have a: "a = f * M + r" by (simp add: f_def r_def)
  have r: "0 \<le> r" "r < M" using M by (simp_all add: r_def)
  have f: "2 ^ 52 \<le> f" "f < 2 ^ 53"
    using large_int_rounding(1,2) [OF big] by (simp_all add: f_def M_def L_def)
  have err: "\<bar>n * M - a\<bar> * 2 ^ 53 \<le> a"
    using large_int_rounding(3) [OF big] by (simp add: n_def M_def L_def)
  have n: "f \<le> n" "n \<le> f + 1"
    using round_half_even_bounds [of a M] by (simp_all add: n_def f_def)
  have "a < 2 ^ nat 1024"
    using assms by (simp add: a_def)
  then have L1024: "L \<le> 1024"
    unfolding L_def by (subst bitlen_le_iff_power) simp
  have small: "n * M < 2 ^ 1024"
  proof (cases "L = 1024")
    case True
    then have Mv: "M = 2 ^ 971" by (simp add: M_def)
    have "n \<le> 2 ^ 53 - 1"
    proof (rule ccontr)
      assume "\<not> n \<le> 2 ^ 53 - 1"
      with n f have nv: "n = f + 1" and fv: "f = 2 ^ 53 - 1" by simp_all
      from nv have "\<not> 2 * r < M"
        by (auto simp: n_def round_half_even_def Let_def f_def [symmetric] r_def [symmetric]
              split: if_splits)
      then have "2 ^ 970 \<le> r" by (simp add: Mv)
      with a have "(2 ^ 53 - 1) * 2 ^ 971 + 2 ^ 970 \<le> a" by (simp add: fv Mv)
      with assms show False by (simp add: a_def)
    qed
    then have "n * M \<le> (2 ^ 53 - 1) * M"
      using M by (intro mult_right_mono) simp_all
    then show ?thesis by (simp add: Mv)
  next
    case False
    with L1024 big have "nat (L - 53) \<le> 970" by (simp add: L_def)
    then have "M \<le> 2 ^ 970"
      unfolding M_def by (intro power_increasing) simp_all
    moreover have "n \<le> 2 ^ 53" using f n by simp
    moreover have "0 \<le> n" using f n by simp
    ultimately have "n * M \<le> 2 ^ 53 * 2 ^ 970"
      using M by (intro mult_mono) simp_all
    then show ?thesis by simp
  qed
  define A where "A = n * M"
  have res: "int_to_float d = Inr (sgn d * A)"
    using big small by (simp add: int_to_float_large A_def n_def M_def L_def a_def)
  have npos: "0 < A"
    unfolding A_def using f n M by (intro mult_pos_pos) simp_all
  have d0: "d \<noteq> 0"
    using big by (auto simp: a_def)
  have "\<bar>sgn d * A - d\<bar> = \<bar>A - a\<bar>"
    using d0 by (cases "0 < d") (simp_all add: a_def)
  moreover have "sgn (sgn d * A) = sgn d"
    using npos d0 by (cases "0 < d") simp_all
  ultimately show ?thesis
    using res err by (simp add: a_def A_def)
qed

lemma truediv_1e6_exact:
  assumes "\<bar>d\<bar> < 2 ^ 53" and "1000000 dvd d"
  shows "truediv_1e6 d = Inr (real_of_int d / 1000000)"
proof (cases "d = 0")
  case True
  then show ?thesis by (simp add: truediv_1e6_def int_to_float_small)
next
  case False
  have conv: "int_to_float d = Inr d"
    using assms(1) by (rule int_to_float_small)
  have "nearest_double \<bar>d\<bar> 1000000 = real_of_int \<bar>d\<bar> / real_of_int 1000000"
    using False assms by (intro nearest_double_exact) simp_all
  then have "real_of_int (sgn d) * nearest_double \<bar>d\<bar> 1000000 = real_of_int d / 1000000"
    by (cases "0 < d") (use False in simp_all)
  with False conv show ?thesis by (simp add: truediv_1e6_def)
qed

lemma truediv_1e6_overflow:
  assumes "2 ^ 1024 - 2 ^ 970 \<le> \<bar>d\<bar>"
  shows "truediv_1e6 d = Inl (OverflowError ''int too large to convert to float'')"
  using int_to_float_overflow [OF assms] by (simp add: truediv_1e6_def)

lemma truediv_1e6_rounds:
  assumes "\<bar>d\<bar> < 2 ^ 1024 - 2 ^ 970"
  shows "\<exists>ms. truediv_1e6 d = Inr ms
           \<and> \<bar>ms - real_of_int d / 1000000\<bar> * 2 ^ 51 \<le> real_of_int \<bar>d\<bar> / 1000000"
proof -
  obtain a where conv: "int_to_float d = Inr a"
    and err: "\<bar>a - d\<bar> * 2 ^ 53 \<le> \<bar>d\<bar>" and sg: "sgn a = sgn d"
    using int_to_float_rounds [OF assms] by blast
  show ?thesis
  proof (cases "a = 0")
    case True
    with sg have "sgn d = 0" by simp
    then have "d = 0" by (simp add: sgn_if split: if_splits)
    with True conv show ?thesis by (simp add: truediv_1e6_def)
  next
    case False
    define x where "x = real_of_int \<bar>a\<bar> / 1000000"
    define y where "y = real_of_int \<bar>d\<bar> / 1000000"
    define N where "N = nearest_double \<bar>a\<bar> 1000000"
    have res: "truediv_1e6 d = Inr (real_of_int (sgn a) * N)"
      using conv False by (simp add: truediv_1e6_def N_def)
    have "\<bar>N - real_of_int \<bar>a\<bar> / real_of_int 1000000\<bar>
        \<le> real_of_int \<bar>a\<bar> / real_of_int 1000000 / 2 ^ 53"
      unfolding N_def using False by (intro nearest_double_error) simp_all
    then have e1: "\<bar>N - x\<bar> \<le> x / 2 ^ 53" by (simp add: x_def)
    have "\<bar>\<bar>a\<bar> - \<bar>d\<bar>\<bar> \<le> \<bar>a - d\<bar>" by simp
    then have "\<bar>\<bar>a\<bar> - \<bar>d\<bar>\<bar> * 2 ^ 53 \<le> \<bar>d\<bar>" using err by simp
    then have "real_of_int (\<bar>\<bar>a\<bar> - \<bar>d\<bar>\<bar> * 2 ^ 53) \<le> real_of_int \<bar>d\<bar>"
      by (rule of_int_le_iff [THEN iffD2])
    then have e2: "\<bar>x - y\<bar> \<le> y / 2 ^ 53"
      by (simp add: x_def y_def field_simps)
    have y0: "0 \<le> y" by (simp add: y_def)
    from e2 have "x \<le> y + y / 2 ^ 53" by linarith
    with y0 have x2: "x \<le> 2 * y" by simp
    have "\<bar>N - y\<bar> \<le> \<bar>N - x\<bar> + \<bar>x - y\<bar>" by simp
    also have "\<dots> \<le> x / 2 ^ 53 + y / 2 ^ 53" using e1 e2 by simp
    also have "\<dots> \<le> 2 * y / 2 ^ 53 + y / 2 ^ 53" using x2 by (simp add: divide_right_mono)
    also have "\<dots> \<le> y / 2 ^ 51" using y0 by simp
    finally have bound: "\<bar>N - y\<bar> * 2 ^ 51 \<le> y" by (simp add: field_simps)
    have d0: "d \<noteq> 0"
    proof
      assume "d = 0"
      with sg have "sgn a = 0" by simp
      then have "a = 0" by (simp add: sgn_if split: if_splits)
      with False show False by simp
    qed
    have "\<bar>real_of_int (sgn a) * N - real_of_int d / 1000000\<bar> = \<bar>N - y\<bar>"
      using d0 by (cases "0 < d") (simp_all add: sg y_def)
    with bound res show ?thesis by (simp add: y_def)
  qed
qed

text \<open>Values of the quotient; the rounded ones are those Python prints as
  \<^verbatim>\<open>1e-06\<close> and \<^verbatim>\<open>1234.56789\<close>.\<close>

lemma truediv_1e6_examples:
  "truediv_1e6 0 = Inr 0"
  "truediv_1e6 2000000 = Inr 2"
  "truediv_1e6 9000000 = Inr 9"
  "truediv_1e6 (10 ^ 400) = Inl (OverflowError ''int too large to convert to float'')"
proof -
  show "truediv_1e6 0 = Inr 0"
    using truediv_1e6_exact [of 0] by simp
  show "truediv_1e6 2000000 = Inr 2"
    using truediv_1e6_exact [of 2000000] by simp
  show "truediv_1e6 9000000 = Inr 9"
    using truediv_1e6_exact [of 9000000] by simp
  show "truediv_1e6 (10 ^ 400) = Inl (OverflowError ''int too large to convert to float'')"
    by (rule truediv_1e6_overflow) simp
qed

lemma truediv_1e6_rounded_examples:
  "truediv_1e6 1 = Inr (4722366482869645 / 2 ^ 72)"
  "truediv_1e6 1234567890 = Inr (5429687001335527 / 2 ^ 42)"
  by code_simp+

lemma truediv_1e6_defined:
  assumes "\<forall>d. x = Some d \<longrightarrow> \<bar>d\<bar> < 2 ^ 1024 - 2 ^ 970"
  shows "\<exists>ms. truediv_1e6 (case x of None \<Rightarrow> 0 | Some d \<Rightarrow> d) = Inr ms"
proof (cases x)
  case None
  then show ?thesis by (simp add: truediv_1e6_examples)
next
  case (Some d)
  with assms have "\<bar>d\<bar> < 2 ^ 1024 - 2 ^ 970" by simp
  then obtain ms where "truediv_1e6 d = Inr ms"
    using truediv_1e6_rounds by blast
  with Some show ?thesis by simp
qed

section \<open>What each operation sends and returns\<close>

text \<open>
  Each operation issues exactly one request; its result is determined by what
  \<open>fetch_json\<close> yields for that request.
\<close>

lemma snd_mcp_generate:
  "snd (mcp_generate self p m s c t mt) =
     [POST (base_url self @ ''/api/generate'') (mcp_generate_payload p m s c t mt)]"
  by (simp add: mcp_generate_def Let_def)

lemma snd_simple_generate:
  "snd (simple_generate self p m s c t mt) =
     [POST (base_url self @ ''/api/generate'') (simple_generate_payload p m s c t mt)]"
  by (simp add: simple_generate_def Let_def)

lemma snd_mcp_chat:
  "snd (mcp_chat self ms m t mt) =
     [POST (base_url self @ ''/api/chat'') (mcp_chat_payload ms m t mt)]"
  by (simp add: mcp_chat_def Let_def)

lemma snd_simple_chat:
  "snd (simple_chat self ms m t mt) =
     [POST (base_url self @ ''/api/chat'') (simple_chat_payload ms m t mt)]"
  by (simp add: simple_chat_def Let_def)

lemma prompt_mcp_generate_payload:
  "p_prompt (mcp_generate_payload p m s c t mt) =
     Some (case c of None \<Rightarrow> p
           | Some x \<Rightarrow> if x \<noteq> [] then ''Context:\<newline>'' @ x @ ''\<newline>\<newline>Question: '' @ p else p)"
  by (simp add: mcp_generate_payload_def Let_def split: option.splits)

lemma prompt_simple_generate_payload:
  "p_prompt (simple_generate_payload p m s c t mt) =
     Some (case c of None \<Rightarrow> p
           | Some x \<Rightarrow> if x \<noteq> [] then ''Context:\<newline>'' @ x @ ''\<newline>\<newline>Question: '' @ p else p)"
  by (simp add: simple_generate_payload_def Let_def split: option.splits)

lemma simple_payloads_eq_mcp:
  "simple_generate_payload p m s c t mt = mcp_generate_payload p m s c t mt"
  "simple_chat_payload ms m t mt = mcp_chat_payload ms m t mt"
  by (simp_all add: simple_generate_payload_def mcp_generate_payload_def
        simple_chat_payload_def mcp_chat_payload_def)

lemma snd_handle_call_tool_generate_text:
  "snd (handle_call_tool ollama ''generate_text'' a) =
     [POST (base_url ollama @ ''/api/generate'')
        (mcp_generate_payload (case arg_prompt a of None \<Rightarrow> [] | Some p \<Rightarrow> p)
           (case arg_model a of None \<Rightarrow> ''llama3.2:latest'' | Some m \<Rightarrow> m)
           (arg_system_prompt a) (arg_context a)
           (case arg_temperature a of None \<Rightarrow> 7 / 10 | Some t \<Rightarrow> t)
           (arg_max_tokens a))]"
  by (simp add: handle_call_tool_def Let_def mcp_generate_def split: sum.splits)

lemma snd_handle_call_tool_chat_completion:
  "snd (handle_call_tool ollama ''chat_completion'' a) =
     [POST (base_url ollama @ ''/api/chat'')
        (mcp_chat_payload (case arg_messages a of None \<Rightarrow> [] | Some ms \<Rightarrow> ms)
           (case arg_model a of None \<Rightarrow> ''llama3.2:latest'' | Some m \<Rightarrow> m)
           (case arg_temperature a of None \<Rightarrow> 7 / 10 | Some t \<Rightarrow> t)
           (arg_max_tokens a))]"
  by (simp add: handle_call_tool_def Let_def mcp_chat_def split: sum.splits)

lemma snd_generate_text:
  "snd (generate_text ollama req) =
     [POST (base_url ollama @ ''/api/generate'')
        (simple_generate_payload (gr_prompt req) (gr_model req) (gr_system_prompt req)
           (gr_context req) (gr_temperature req) (gr_max_tokens req))]"
  by (simp add: generate_text_def simple_generate_def Let_def split: sum.splits)

lemma map_ChatMessage_id:
  "map (\<lambda>msg. \<lparr>role = role msg, content = content msg\<rparr>) ms = ms"
  by (induction ms) simp_all

lemma snd_chat_completion:
  "snd (chat_completion ollama req) =
     [POST (base_url ollama @ ''/api/chat'')
        (simple_chat_payload (cr_messages req) (cr_model req) (cr_temperature req)
           (cr_max_tokens req))]"
  by (simp add: chat_completion_def simple_chat_def Let_def map_ChatMessage_id split: sum.splits)

lemma fst_handle_call_tool_generate_text:
  "fst (handle_call_tool ollama ''generate_text'' a) =
     (case fetch_json ollama (hd (snd (handle_call_tool ollama ''generate_text'' a))) of
        Inr r \<Rightarrow> Inr [TextContent ''text'' (Text (case rj_response r of None \<Rightarrow> [] | Some s \<Rightarrow> s))]
      | Inl e \<Rightarrow> Inr [TextContent ''text'' (Text (''Generation failed: '' @ str e))])"
  unfolding snd_handle_call_tool_generate_text
  by (simp add: handle_call_tool_def Let_def mcp_generate_def split: sum.splits)

lemma fst_handle_call_tool_chat_completion:
  "fst (handle_call_tool ollama ''chat_completion'' a) =
     (case fetch_json ollama (hd (snd (handle_call_tool ollama ''chat_completion'' a))) of
        Inr r \<Rightarrow>
          Inr [TextContent ''text''
                 (Text (case rj_message r of None \<Rightarrow> []
                        | Some m \<Rightarrow> (case msg_content m of None \<Rightarrow> [] | Some s \<Rightarrow> s)))]
      | Inl e \<Rightarrow> Inr [TextContent ''text'' (Text (''Chat completion failed: '' @ str e))])"
  unfolding snd_handle_call_tool_chat_completion
  by (simp add: handle_call_tool_def Let_def mcp_chat_def split: sum.splits)

lemma fst_generate_text:
  "fst (generate_text ollama req) =
     (case fetch_json ollama (hd (snd (generate_text ollama req))) of
        Inr result \<Rightarrow>
          (case truediv_1e6 (case rj_eval_duration result of None \<Rightarrow> 0 | Some d \<Rightarrow> d) of
             Inr ms \<Rightarrow>
               Inr \<lparr>g_text = (case rj_response result of None \<Rightarrow> [] | Some s \<Rightarrow> s),
                    g_model = gr_model req,
                    g_eval_count = (case rj_eval_count result of None \<Rightarrow> 0 | Some n \<Rightarrow> n),
                    g_eval_duration_ms = ms\<rparr>
           | Inl e \<Rightarrow> Inl (HTTPException 500 (''Generation failed: '' @ str e)))
      | Inl e \<Rightarrow> Inl (HTTPException 500 (''Generation failed: '' @ str e)))"
  unfolding snd_generate_text
  by (simp add: generate_text_def simple_generate_def Let_def split: sum.splits)

lemma fst_chat_completion:
  "fst (chat_completion ollama req) =
     (case fetch_json ollama (hd (snd (chat_completion ollama req))) of
        Inr result \<Rightarrow>
          (case truediv_1e6 (case rj_eval_duration result of None \<Rightarrow> 0 | Some d \<Rightarrow> d) of
             Inr ms \<Rightarrow>
               Inr \<lparr>c_message =
                      (case rj_message result of
                         None \<Rightarrow> \<lparr>msg_role = None, msg_content = None\<rparr>
                       | Some m \<Rightarrow> m),
                    c_model = cr_model req,
                    c_eval_count = (case rj_eval_count result of None \<Rightarrow> 0 | Some n \<Rightarrow> n),
                    c_eval_duration_ms = ms\<rparr>
           | Inl e \<Rightarrow> Inl (HTTPException 500 (''Chat completion failed: '' @ str e)))
      | Inl e \<Rightarrow> Inl (HTTPException 500 (''Chat completion failed: '' @ str e)))"
  unfolding snd_chat_completion
  by (simp add: chat_completion_def simple_chat_def Let_def map_ChatMessage_id split: sum.splits)

text \<open>The result of a direct call whose backend reply carries an \<^verbatim>\<open>eval_duration\<close>.\<close>

lemma generate_text_duration:
  assumes "snd (generate_text c req) = [rq]" and "fetch_json c rq = Inr r"
    and "rj_eval_duration r = Some d"
  shows "fst (generate_text c req) =
           (case truediv_1e6 d of
              Inr ms \<Rightarrow>
                Inr \<lparr>g_text = (case rj_response r of None \<Rightarrow> [] | Some s \<Rightarrow> s),
                     g_model = gr_model req,
                     g_eval_count = (case rj_eval_count r of None \<Rightarrow> 0 | Some n \<Rightarrow> n),
                     g_eval_duration_ms = ms\<rparr>
            | Inl e \<Rightarrow> Inl (HTTPException 500 (''Generation failed: '' @ str e)))"
  using assms by (simp add: fst_generate_text)

lemma chat_completion_duration:
  assumes "snd (chat_completion c creq) = [rq]" and "fetch_json c rq = Inr r"
    and "rj_eval_duration r = Some d"
  shows "fst (chat_completion c creq) =
           (case truediv_1e6 d of
              Inr ms \<Rightarrow>
                Inr \<lparr>c_message =
                       (case rj_message r of
                          None \<Rightarrow> \<lparr>msg_role = None, msg_content = None\<rparr>
                        | Some m \<Rightarrow> m),
                     c_model = cr_model creq,
                     c_eval_count = (case rj_eval_count r of None \<Rightarrow> 0 | Some n \<Rightarrow> n),
                     c_eval_duration_ms = ms\<rparr>
            | Inl e \<Rightarrow> Inl (HTTPException 500 (''Chat completion failed: '' @ str e)))"
  using assms by (simp add: fst_chat_completion)

lemma base_url_examples:
  "base_url ollama_up = ''http://localhost:11434''"
  "base_url ollama_down = ''http://localhost:11434''"
  "base_url ollama_slow = ''http://localhost:11434''"
  "base_url ollama_1ns = ''http://localhost:11434''"
  "base_url ollama_huge = ''http://localhost:11434''"
  by (simp_all add: ollama_up_def ollama_down_def ollama_slow_def ollama_1ns_def
        ollama_huge_def OllamaClient_init_def rstrip_slash_def)

lemma fetch_json_examples:
  "fetch_json ollama_up rq = Inr reply_ok"
  "fetch_json ollama_down rq = Inl (Exception ''All connection attempts failed'')"
  "fetch_json ollama_slow rq = Inr (reply_ok\<lparr>rj_eval_duration := Some 9000000\<rparr>)"
  "fetch_json ollama_1ns rq = Inr (reply_ok\<lparr>rj_eval_duration := Some 1\<rparr>)"
  "fetch_json ollama_huge rq = Inr (reply_ok\<lparr>rj_eval_duration := Some (10 ^ 400)\<rparr>)"
  by (simp_all add: fetch_json_def ollama_up_def ollama_down_def ollama_slow_def
        ollama_1ns_def ollama_huge_def OllamaClient_init_def)

lemma num_predict_payloads:
  "mt = None \<or> mt = Some 0 \<Longrightarrow>
     opt_num_predict (p_options (mcp_generate_payload p m s c t mt)) = None"
  "mt = None \<or> mt = Some 0 \<Longrightarrow>
     opt_num_predict (p_options (mcp_chat_payload ms m t mt)) = None"
  "mt = None \<or> mt = Some 0 \<Longrightarrow>
     opt_num_predict (p_options (simple_generate_payload p m s c t mt)) = None"
  "mt = None \<or> mt = Some 0 \<Longrightarrow>
     opt_num_predict (p_options (simple_chat_payload ms m t mt)) = None"
  by (auto simp: mcp_generate_payload_def mcp_chat_payload_def simple_generate_payload_def
        simple_chat_payload_def Let_def split: option.splits)

lemma post_generate_present:
  "arg_prompt body = Some p \<Longrightarrow>
     post_generate c body =
       generate_text c
         \<lparr>gr_prompt = p,
          gr_model = (case arg_model body of None \<Rightarrow> ''llama3.2:latest'' | Some m \<Rightarrow> m),
          gr_temperature = (case arg_temperature body of None \<Rightarrow> 7 / 10 | Some t \<Rightarrow> t),
          gr_max_tokens = arg_max_tokens body,
          gr_context = arg_context body,
          gr_system_prompt = arg_system_prompt body\<rparr>"
  by (simp add: post_generate_def GenerateRequest_validate_def)

lemma post_chat_present:
  "arg_messages body = Some ms \<Longrightarrow>
     post_chat c body =
       chat_completion c
         \<lparr>cr_messages = ms,
          cr_model = (case arg_model body of None \<Rightarrow> ''llama3.2:latest'' | Some m \<Rightarrow> m),
          cr_temperature = (case arg_temperature body of None \<Rightarrow> 7 / 10 | Some t \<Rightarrow> t),
          cr_max_tokens = arg_max_tokens body\<rparr>"
  by (simp add: post_chat_def ChatRequest_validate_def)

section \<open>Prompt composition\<close>

text \<open>
  Claim C1. For a generation request with a non-empty context \<open>C\<close> and prompt \<open>P\<close>,
  the prompt sent to the backend is exactly
  \<^verbatim>\<open>"Context:\n" + C + "\n\nQuestion: " + P\<close>, in both clients and at both transports.
\<close>

theorem context_template_law:
  assumes "C \<noteq> []"
    and "arg_context a = Some C" and "arg_prompt a = Some P"
    and "gr_context req = Some C" and "gr_prompt req = P"
  shows "prompts_sent (snd (mcp_generate c P m s (Some C) t mt)) =
           [Some (''Context:\<newline>'' @ C @ ''\<newline>\<newline>Question: '' @ P)]
       \<and> prompts_sent (snd (simple_generate c P m s (Some C) t mt)) =
           [Some (''Context:\<newline>'' @ C @ ''\<newline>\<newline>Question: '' @ P)]
       \<and> prompts_sent (snd (handle_call_tool c ''generate_text'' a)) =
           [Some (''Context:\<newline>'' @ C @ ''\<newline>\<newline>Question: '' @ P)]
       \<and> prompts_sent (snd (generate_text c req)) =
           [Some (''Context:\<newline>'' @ C @ ''\<newline>\<newline>Question: '' @ P)]"
  using assms
  by (simp add: snd_mcp_generate snd_simple_generate snd_handle_call_tool_generate_text
        snd_generate_text prompt_mcp_generate_payload prompt_simple_generate_payload)

theorem context_template_law_witness:
  "prompts_sent (snd (handle_call_tool ollama_up ''generate_text'' kg_arguments)) =
     [Some ''Context:\<newline>Graphs store entities.\<newline>\<newline>Question: What is a knowledge graph?'']
   \<and> prompts_sent (snd (generate_text ollama_up kg_request)) =
     [Some ''Context:\<newline>Graphs store entities.\<newline>\<newline>Question: What is a knowledge graph?'']"
proof -
  have h1: "''Graphs store entities.'' \<noteq> []" by simp
  have h2: "arg_context kg_arguments = Some ''Graphs store entities.''"
    by (simp add: kg_arguments_def)
  have h3: "arg_prompt kg_arguments = Some ''What is a knowledge graph?''"
    by (simp add: kg_arguments_def)
  have h4: "gr_context kg_request = Some ''Graphs store entities.''"
    by (simp add: kg_request_def)
  have h5: "gr_prompt kg_request = ''What is a knowledge graph?''"
    by (simp add: kg_request_def)
  show ?thesis
    using context_template_law [OF h1 h2 h3 h4 h5, of ollama_up] by simp
qed

text \<open>
  Claim C2. For a generation request whose context is absent, the prompt sent to the
  backend is the original prompt, unchanged, in both clients and at both transports.
\<close>

theorem absent_context_identity_law:
  assumes "arg_context a = None" and "arg_prompt a = Some P"
    and "gr_context req = None" and "gr_prompt req = P"
  shows "prompts_sent (snd (mcp_generate c P m s None t mt)) = [Some P]
       \<and> prompts_sent (snd (simple_generate c P m s None t mt)) = [Some P]
       \<and> prompts_sent (snd (handle_call_tool c ''generate_text'' a)) = [Some P]
       \<and> prompts_sent (snd (generate_text c req)) = [Some P]"
  using assms
  by (simp add: snd_mcp_generate snd_simple_generate snd_handle_call_tool_generate_text
        snd_generate_text prompt_mcp_generate_payload prompt_simple_generate_payload)

theorem absent_context_identity_law_witness:
  "prompts_sent (snd (handle_call_tool ollama_up ''generate_text''
      (kg_arguments\<lparr>arg_context := None\<rparr>))) = [Some ''What is a knowledge graph?'']
   \<and> prompts_sent (snd (generate_text ollama_up (kg_request\<lparr>gr_context := None\<rparr>))) =
       [Some ''What is a knowledge graph?'']"
proof -
  have h1: "arg_context (kg_arguments\<lparr>arg_context := None\<rparr>) = None" by simp
  have h2: "arg_prompt (kg_arguments\<lparr>arg_context := None\<rparr>) = Some ''What is a knowledge graph?''"
    by (simp add: kg_arguments_def)
  have h3: "gr_context (kg_request\<lparr>gr_context := None\<rparr>) = None" by simp
  have h4: "gr_prompt (kg_request\<lparr>gr_context := None\<rparr>) = ''What is a knowledge graph?''"
    by (simp add: kg_request_def)
  show ?thesis
    using absent_context_identity_law [OF h1 h2 h3 h4, of ollama_up] by simp
qed

text \<open>
  Claim C9. A context that is the empty string is treated as absent: the prompt sent is
  the original prompt and the template is not applied, in both clients and at both
  transports.
\<close>

theorem empty_context_identity_law:
  assumes "arg_context a = Some []" and "arg_prompt a = Some P"
    and "gr_context req = Some []" and "gr_prompt req = P"
  shows "prompts_sent (snd (mcp_generate c P m s (Some []) t mt)) = [Some P]
       \<and> prompts_sent (snd (simple_generate c P m s (Some []) t mt)) = [Some P]
       \<and> prompts_sent (snd (handle_call_tool c ''generate_text'' a)) = [Some P]
       \<and> prompts_sent (snd (generate_text c req)) = [Some P]"
  using assms
  by (simp add: snd_mcp_generate snd_simple_generate snd_handle_call_tool_generate_text
        snd_generate_text prompt_mcp_generate_payload prompt_simple_generate_payload)

theorem empty_context_identity_law_witness:
  "prompts_sent (snd (handle_call_tool ollama_up ''generate_text''
      (kg_arguments\<lparr>arg_context := Some []\<rparr>))) = [Some ''What is a knowledge graph?'']
   \<and> prompts_sent (snd (generate_text ollama_up (kg_request\<lparr>gr_context := Some []\<rparr>))) =
       [Some ''What is a knowledge graph?'']"
proof -
  have h1: "arg_context (kg_arguments\<lparr>arg_context := Some []\<rparr>) = Some []" by simp
  have h2: "arg_prompt (kg_arguments\<lparr>arg_context := Some []\<rparr>) = Some ''What is a knowledge graph?''"
    by (simp add: kg_arguments_def)
  have h3: "gr_context (kg_request\<lparr>gr_context := Some []\<rparr>) = Some []" by simp
  have h4: "gr_prompt (kg_request\<lparr>gr_context := Some []\<rparr>) = ''What is a knowledge graph?''"
    by (simp add: kg_request_def)
  show ?thesis
    using empty_context_identity_law [OF h1 h2 h3 h4, of ollama_up] by simp
qed

section \<open>Request options\<close>

text \<open>
  Claim C10. When \<^verbatim>\<open>max_tokens\<close> is 0 or unset (the falsy values of an optional
  integer), both transports omit \<^verbatim>\<open>num_predict\<close> from the options of the payload
  sent to the backend, for generate and for chat.
\<close>

theorem falsy_max_tokens_omits_num_predict:
  assumes "mt = None \<or> mt = Some 0"
    and "arg_max_tokens a = mt" and "gr_max_tokens req = mt" and "cr_max_tokens creq = mt"
  shows "num_predicts_sent (snd (handle_call_tool c ''generate_text'' a)) = [None]
       \<and> num_predicts_sent (snd (handle_call_tool c ''chat_completion'' a)) = [None]
       \<and> num_predicts_sent (snd (generate_text c req)) = [None]
       \<and> num_predicts_sent (snd (chat_completion c creq)) = [None]"
  using assms
  by (simp add: snd_handle_call_tool_generate_text snd_handle_call_tool_chat_completion
        snd_generate_text snd_chat_completion num_predict_payloads)

theorem falsy_max_tokens_omits_num_predict_witness:
  "num_predicts_sent (snd (handle_call_tool ollama_up ''generate_text''
      (kg_arguments\<lparr>arg_max_tokens := Some 0\<rparr>))) = [None]
   \<and> num_predicts_sent (snd (handle_call_tool ollama_up ''chat_completion''
      (kg_arguments\<lparr>arg_max_tokens := Some 0\<rparr>))) = [None]
   \<and> num_predicts_sent (snd (generate_text ollama_up (kg_request\<lparr>gr_max_tokens := Some 0\<rparr>))) =
       [None]
   \<and> num_predicts_sent (snd (chat_completion ollama_up (hello_request\<lparr>cr_max_tokens := Some 0\<rparr>))) =
       [None]"
proof -
  have h1: "Some (0::int) = None \<or> Some (0::int) = Some 0" by simp
  have h2: "arg_max_tokens (kg_arguments\<lparr>arg_max_tokens := Some 0\<rparr>) = Some 0" by simp
  have h3: "gr_max_tokens (kg_request\<lparr>gr_max_tokens := Some 0\<rparr>) = Some 0" by simp
  have h4: "cr_max_tokens (hello_request\<lparr>cr_max_tokens := Some 0\<rparr>) = Some 0" by simp
  show ?thesis
    using falsy_max_tokens_omits_num_predict [OF h1 h2 h3 h4, of ollama_up] by simp
qed

section \<open>Health and model discovery\<close>

text \<open>
  Claim C7. \<^verbatim>\<open>check_health\<close> issues the version request and never raises; it
  returns true exactly when the backend answers that request with status 200, and false
  on any raised transport error and on any other status. This holds for the clients of
  both transports.
\<close>

theorem check_health_law:
  "mcp_check_health c =
     (Inr (\<exists>r. client c (GET (base_url c @ ''/api/version'')) = Inr r \<and> status_code r = 200),
      [GET (base_url c @ ''/api/version'')])
   \<and> simple_check_health c =
     (Inr (\<exists>r. client c (GET (base_url c @ ''/api/version'')) = Inr r \<and> status_code r = 200),
      [GET (base_url c @ ''/api/version'')])"
proof (cases "client c (GET (base_url c @ ''/api/version''))")
  case (Inl e)
  then show ?thesis
    by (simp add: mcp_check_health_def simple_check_health_def)
next
  case (Inr response)
  then show ?thesis
    by (simp add: mcp_check_health_def simple_check_health_def)
qed

text \<open>The three example backends: up, refusing connections, answering 500.\<close>

lemma check_health_examples:
  "fst (mcp_check_health ollama_up) = Inr True"
  "fst (mcp_check_health ollama_down) = Inr False"
  "fst (mcp_check_health ollama_error) = Inr False"
  "fst (simple_check_health ollama_up) = Inr True"
  "fst (simple_check_health ollama_down) = Inr False"
  "fst (simple_check_health ollama_error) = Inr False"
  by (simp_all add: mcp_check_health_def simple_check_health_def Let_def ollama_up_def
        ollama_down_def ollama_error_def OllamaClient_init_def)

text \<open>
  Claim C4, as stated, fails for the client of the direct transport: with the backend
  unreachable its \<^verbatim>\<open>list_models\<close> re-raises the transport error.
\<close>

theorem simple_list_models_raises:
  "fst (simple_list_models ollama_down) = Inl (Exception ''All connection attempts failed'')"
  by (simp add: simple_list_models_def Let_def fetch_json_examples)

text \<open>
  Claim C4, amended. When the request for the model list fails, \<^verbatim>\<open>list_models\<close> of
  the tool-style client returns the empty list and does not raise; \<^verbatim>\<open>list_models\<close>
  of the direct client re-raises the failure, and the \<^verbatim>\<open>/models\<close> endpoint turns it
  into a status-500 error whose detail is \<^verbatim>\<open>"Failed to list models: "\<close> followed by
  the reason.
\<close>

theorem list_models_on_failure:
  assumes "fetch_json c (GET (base_url c @ ''/api/tags'')) = Inl e"
  shows "mcp_list_models c = (Inr [], [GET (base_url c @ ''/api/tags'')])
       \<and> simple_list_models c = (Inl e, [GET (base_url c @ ''/api/tags'')])
       \<and> list_models c =
           (Inl (HTTPException 500 (''Failed to list models: '' @ str e)),
            [GET (base_url c @ ''/api/tags'')])"
  using assms
  by (simp add: mcp_list_models_def simple_list_models_def list_models_def Let_def)

theorem list_models_on_failure_witness:
  "mcp_list_models ollama_down = (Inr [], [GET ''http://localhost:11434/api/tags''])
   \<and> simple_list_models ollama_down =
       (Inl (Exception ''All connection attempts failed''),
        [GET ''http://localhost:11434/api/tags''])
   \<and> list_models ollama_down =
       (Inl (HTTPException 500 ''Failed to list models: All connection attempts failed''),
        [GET ''http://localhost:11434/api/tags''])"
proof -
  have h: "fetch_json ollama_down (GET (base_url ollama_down @ ''/api/tags'')) =
             Inl (Exception ''All connection attempts failed'')"
    by (simp add: fetch_json_examples)
  show ?thesis
    using list_models_on_failure [OF h] by (simp add: base_url_examples)
qed

section \<open>Backend failures at the protocol surface\<close>

text \<open>
  Claim C6. When the request issued by a generate or chat call fails at the backend
  (the connection raises, \<^verbatim>\<open>raise_for_status\<close> raises, or the body does not parse),
  the tool-style transport returns a normal result whose text is
  \<^verbatim>\<open>"Generation failed: "\<close> (respectively \<^verbatim>\<open>"Chat completion failed: "\<close>) followed
  by the reason, and the direct transport raises an \<^verbatim>\<open>HTTPException\<close> with status 500
  whose detail is the same text. The failure is never turned into a success payload
  without the reason.
\<close>

theorem backend_failure_reported:
  assumes "fetch_json c rq = Inl e"
  shows "(snd (handle_call_tool c ''generate_text'' a) = [rq] \<longrightarrow>
            fst (handle_call_tool c ''generate_text'' a) =
              Inr [TextContent ''text'' (Text (''Generation failed: '' @ str e))])
       \<and> (snd (handle_call_tool c ''chat_completion'' a) = [rq] \<longrightarrow>
            fst (handle_call_tool c ''chat_completion'' a) =
              Inr [TextContent ''text'' (Text (''Chat completion failed: '' @ str e))])
       \<and> (snd (generate_text c req) = [rq] \<longrightarrow>
            fst (generate_text c req) =
              Inl (HTTPException 500 (''Generation failed: '' @ str e)))
       \<and> (snd (chat_completion c creq) = [rq] \<longrightarrow>
            fst (chat_completion c creq) =
              Inl (HTTPException 500 (''Chat completion failed: '' @ str e)))"
proof (intro conjI impI)
  assume "snd (handle_call_tool c ''generate_text'' a) = [rq]"
  with assms show "fst (handle_call_tool c ''generate_text'' a) =
      Inr [TextContent ''text'' (Text (''Generation failed: '' @ str e))]"
    by (simp add: fst_handle_call_tool_generate_text)
next
  assume "snd (handle_call_tool c ''chat_completion'' a) = [rq]"
  with assms show "fst (handle_call_tool c ''chat_completion'' a) =
      Inr [TextContent ''text'' (Text (''Chat completion failed: '' @ str e))]"
    by (simp add: fst_handle_call_tool_chat_completion)
next
  assume "snd (generate_text c req) = [rq]"
  with assms show "fst (generate_text c req) =
      Inl (HTTPException 500 (''Generation failed: '' @ str e))"
    by (simp add: fst_generate_text)
next
  assume "snd (chat_completion c creq) = [rq]"
  with assms show "fst (chat_completion c creq) =
      Inl (HTTPException 500 (''Chat completion failed: '' @ str e))"
    by (simp add: fst_chat_completion)
qed

theorem backend_failure_reported_witness:
  "fst (handle_call_tool ollama_down ''generate_text'' x_arguments) =
     Inr [TextContent ''text'' (Text ''Generation failed: All connection attempts failed'')]
   \<and> fst (generate_text ollama_down kg_request) =
     Inl (HTTPException 500 ''Generation failed: All connection attempts failed'')
   \<and> fst (handle_call_tool ollama_error ''chat_completion'' hello_arguments) =
     Inr [TextContent ''text''
            (Text ''Chat completion failed: Server error 500 Internal Server Error'')]
   \<and> fst (chat_completion ollama_error hello_request) =
     Inl (HTTPException 500 ''Chat completion failed: Server error 500 Internal Server Error'')"
proof -
  have d: "\<And>rq. fetch_json ollama_down rq = Inl (Exception ''All connection attempts failed'')"
    by (simp add: fetch_json_examples)
  have e: "\<And>rq. fetch_json ollama_error rq =
             Inl (Exception ''Server error 500 Internal Server Error'')"
    by (simp add: fetch_json_def ollama_error_def OllamaClient_init_def)
  have s1: "snd (handle_call_tool ollama_down ''generate_text'' x_arguments) =
              [hd (snd (handle_call_tool ollama_down ''generate_text'' x_arguments))]"
    by (simp add: snd_handle_call_tool_generate_text)
  have s2: "snd (generate_text ollama_down kg_request) =
              [hd (snd (generate_text ollama_down kg_request))]"
    by (simp add: snd_generate_text)
  have s3: "snd (handle_call_tool ollama_error ''chat_completion'' hello_arguments) =
              [hd (snd (handle_call_tool ollama_error ''chat_completion'' hello_arguments))]"
    by (simp add: snd_handle_call_tool_chat_completion)
  have s4: "snd (chat_completion ollama_error hello_request) =
              [hd (snd (chat_completion ollama_error hello_request))]"
    by (simp add: snd_chat_completion)
  show ?thesis
    using
      backend_failure_reported [where c = ollama_down and a = x_arguments
        and rq = "hd (snd (handle_call_tool ollama_down ''generate_text'' x_arguments))", OF d]
      backend_failure_reported [where c = ollama_down and req = kg_request
        and rq = "hd (snd (generate_text ollama_down kg_request))", OF d]
      backend_failure_reported [where c = ollama_error and a = hello_arguments
        and rq = "hd (snd (handle_call_tool ollama_error ''chat_completion'' hello_arguments))",
        OF e]
      backend_failure_reported [where c = ollama_error and creq = hello_request
        and rq = "hd (snd (chat_completion ollama_error hello_request))", OF e]
      s1 s2 s3 s4
    by simp
qed

section \<open>Validation of required fields\<close>

text \<open>
  Claim C3, as stated, fails: a required field that is present but empty is not
  rejected. The direct transport forwards a generate request whose prompt is the empty
  string, and the tool-style transport forwards a chat call whose message list is empty;
  in both cases the backend receives the request.
\<close>

theorem empty_required_field_reaches_backend:
  "post_generate ollama_up empty_prompt_arguments =
     (Inr \<lparr>g_text = ''Graphs represent entities as nodes.'', g_model = ''llama3.2:latest'',
           g_eval_count = 7, g_eval_duration_ms = 2\<rparr>,
      [POST ''http://localhost:11434/api/generate''
         \<lparr>p_model = ''llama3.2:latest'', p_prompt = Some [], p_messages = None,
          p_stream = False, p_system = None,
          p_options = \<lparr>opt_temperature = 7 / 10, opt_num_predict = None\<rparr>\<rparr>])
   \<and> handle_call_tool ollama_up ''chat_completion'' empty_messages_arguments =
     (Inr [TextContent ''text'' (Text ''Hello.'')],
      [POST ''http://localhost:11434/api/chat''
         \<lparr>p_model = ''llama3.2:latest'', p_prompt = None, p_messages = Some [],
          p_stream = False, p_system = None,
          p_options = \<lparr>opt_temperature = 7 / 10, opt_num_predict = None\<rparr>\<rparr>])"
  by (simp add: post_generate_def GenerateRequest_validate_def generate_text_def
        simple_generate_def simple_generate_payload_def handle_call_tool_def mcp_chat_def
        mcp_chat_payload_def Let_def fetch_json_examples base_url_examples reply_ok_def
        empty_prompt_arguments_def empty_messages_arguments_def no_arguments_def
        truediv_1e6_examples)

text \<open>
  Claim C3, amended. On the direct transport a generate request without \<^verbatim>\<open>prompt\<close>
  and a chat request without \<^verbatim>\<open>messages\<close> are rejected by the request model with a
  validation failure, and no request is issued to the backend. A required field that is
  present but empty is accepted by both transports, each of which issues its one
  backend request.
\<close>

theorem required_field_validation:
  "(arg_prompt body = None \<longrightarrow>
      post_generate c body = (Inl (RequestValidationError ''prompt''), []))
   \<and> (arg_messages body = None \<longrightarrow>
      post_chat c body = (Inl (RequestValidationError ''messages''), []))
   \<and> (arg_prompt body = Some [] \<longrightarrow>
      length (snd (post_generate c body)) = 1
      \<and> length (snd (handle_call_tool c ''generate_text'' body)) = 1)
   \<and> (arg_messages body = Some [] \<longrightarrow>
      length (snd (post_chat c body)) = 1
      \<and> length (snd (handle_call_tool c ''chat_completion'' body)) = 1)"
  by (auto simp: post_generate_def GenerateRequest_validate_def post_chat_def
        ChatRequest_validate_def snd_generate_text snd_chat_completion
        snd_handle_call_tool_generate_text snd_handle_call_tool_chat_completion)

theorem required_field_validation_witness:
  "post_generate ollama_up no_arguments = (Inl (RequestValidationError ''prompt''), [])
   \<and> post_chat ollama_up no_arguments = (Inl (RequestValidationError ''messages''), [])
   \<and> length (snd (post_generate ollama_up empty_prompt_arguments)) = 1
   \<and> length (snd (handle_call_tool ollama_up ''generate_text'' empty_prompt_arguments)) = 1
   \<and> length (snd (post_chat ollama_up empty_messages_arguments)) = 1
   \<and> length (snd (handle_call_tool ollama_up ''chat_completion'' empty_messages_arguments)) = 1"
proof -
  have h1: "arg_prompt no_arguments = None" "arg_messages no_arguments = None"
    by (simp_all add: no_arguments_def)
  have h2: "arg_prompt empty_prompt_arguments = Some []"
    by (simp add: empty_prompt_arguments_def)
  have h3: "arg_messages empty_messages_arguments = Some []"
    by (simp add: empty_messages_arguments_def)
  show ?thesis
    using required_field_validation [of no_arguments ollama_up]
      required_field_validation [of empty_prompt_arguments ollama_up]
      required_field_validation [of empty_messages_arguments ollama_up] h1 h2 h3
    by simp
qed

section \<open>Duration telemetry\<close>

text \<open>
  Claim C5, as stated, fails in three ways.
  \<^item> The tool-style transport reports no duration: its result is the response text
    alone, the same for a backend answering with an \<^verbatim>\<open>eval_duration\<close> of 2000000 and
    for one answering with 9000000.
  \<^item> On the direct transport the quotient is a double and is not exact in general: for an
    \<^verbatim>\<open>eval_duration\<close> of 1 the reported value is \<open>4722366482869645 / 2\<^sup>7\<^sup>2\<close>, the double
    nearest to \<open>10\<^sup>-\<^sup>6\<close>, which is not \<open>1 / 10\<^sup>6\<close>.
  \<^item> For an \<^verbatim>\<open>eval_duration\<close> of \<open>10\<^sup>4\<^sup>0\<^sup>0\<close> the conversion to a float overflows and the
    direct transport answers with status 500 instead of a duration.
\<close>

theorem eval_duration_ms_counterexample:
  "fst (handle_call_tool ollama_up ''generate_text'' kg_arguments) =
     Inr [TextContent ''text'' (Text ''Graphs represent entities as nodes.'')]
   \<and> fst (handle_call_tool ollama_slow ''generate_text'' kg_arguments) =
     Inr [TextContent ''text'' (Text ''Graphs represent entities as nodes.'')]
   \<and> fetch_json ollama_up (hd (snd (handle_call_tool ollama_up ''generate_text'' kg_arguments))) =
       Inr reply_ok
   \<and> rj_eval_duration reply_ok = Some 2000000
   \<and> fetch_json ollama_slow
         (hd (snd (handle_call_tool ollama_slow ''generate_text'' kg_arguments))) =
       Inr (reply_ok\<lparr>rj_eval_duration := Some 9000000\<rparr>)
   \<and> fetch_json ollama_1ns (hd (snd (generate_text ollama_1ns kg_request))) =
       Inr (reply_ok\<lparr>rj_eval_duration := Some 1\<rparr>)
   \<and> fst (generate_text ollama_1ns kg_request) =
       Inr \<lparr>g_text = ''Graphs represent entities as nodes.'', g_model = ''llama3.2:latest'',
            g_eval_count = 7, g_eval_duration_ms = 4722366482869645 / 2 ^ 72\<rparr>
   \<and> (4722366482869645 / 2 ^ 72 :: real) \<noteq> 1 / 1000000
   \<and> fetch_json ollama_huge (hd (snd (generate_text ollama_huge kg_request))) =
       Inr (reply_ok\<lparr>rj_eval_duration := Some (10 ^ 400)\<rparr>)
   \<and> fst (generate_text ollama_huge kg_request) =
       Inl (HTTPException 500 ''Generation failed: int too large to convert to float'')"
proof -
  have t: "fst (handle_call_tool ollama_up ''generate_text'' kg_arguments) =
      Inr [TextContent ''text'' (Text ''Graphs represent entities as nodes.'')]"
    "fst (handle_call_tool ollama_slow ''generate_text'' kg_arguments) =
      Inr [TextContent ''text'' (Text ''Graphs represent entities as nodes.'')]"
    by (simp_all add: fst_handle_call_tool_generate_text fetch_json_examples reply_ok_def)
  have d1: "fst (generate_text ollama_1ns kg_request) =
      Inr \<lparr>g_text = ''Graphs represent entities as nodes.'', g_model = ''llama3.2:latest'',
           g_eval_count = 7, g_eval_duration_ms = 4722366482869645 / 2 ^ 72\<rparr>"
    by (simp add: fst_generate_text fetch_json_examples truediv_1e6_rounded_examples
          reply_ok_def kg_request_def)
  have d2: "fst (generate_text ollama_huge kg_request) =
      Inl (HTTPException 500 ''Generation failed: int too large to convert to float'')"
    by (simp add: fst_generate_text fetch_json_examples truediv_1e6_examples reply_ok_def
          del: power_numeral)
  have ne: "(4722366482869645 / 2 ^ 72 :: real) \<noteq> 1 / 1000000"
    by simp
  show ?thesis
    using t d1 d2 ne by (simp add: fetch_json_examples reply_ok_def del: power_numeral)
qed

text \<open>
  Claim C5, amended. When the backend answers the request of a call with an object whose
  \<^verbatim>\<open>eval_duration\<close> is \<open>d\<close> nanoseconds, the direct transport reports, for generate and
  for chat alike, Python's float quotient \<^verbatim>\<open>d / 1e6\<close> as \<^verbatim>\<open>eval_duration_ms\<close>:
  \<^item> it is exactly \<open>d / 10\<^sup>6\<close> when \<open>d\<close> is a multiple of \<open>10\<^sup>6\<close> with \<open>|d| < 2\<^sup>5\<^sup>3\<close>
    (so 2000000 gives 2);
  \<^item> for every \<open>|d| < 2\<^sup>1\<^sup>0\<^sup>2\<^sup>4 - 2\<^sup>9\<^sup>7\<^sup>0\<close> the call succeeds and the reported value is
    \<open>d / 10\<^sup>6\<close> up to double rounding, within a relative error of \<open>2\<^sup>-\<^sup>5\<^sup>1\<close>;
  \<^item> for \<open>|d| \<ge> 2\<^sup>1\<^sup>0\<^sup>2\<^sup>4 - 2\<^sup>9\<^sup>7\<^sup>0\<close> the conversion of \<open>d\<close> to a float raises and the call
    fails with status 500.
  The tool-style transport returns only the output text of that object and reports no
  duration.
\<close>

theorem direct_eval_duration_ms:
  assumes "fetch_json c rq = Inr r" and "rj_eval_duration r = Some d"
  shows "(snd (generate_text c req) = [rq] \<longrightarrow>
            (\<bar>d\<bar> < 2 ^ 53 \<and> 1000000 dvd d \<longrightarrow>
               (\<exists>res. fst (generate_text c req) = Inr res
                  \<and> g_eval_duration_ms res = real_of_int d / 1000000))
          \<and> (\<bar>d\<bar> < 2 ^ 1024 - 2 ^ 970 \<longrightarrow>
               (\<exists>res. fst (generate_text c req) = Inr res
                  \<and> \<bar>g_eval_duration_ms res - real_of_int d / 1000000\<bar> * 2 ^ 51
                       \<le> real_of_int \<bar>d\<bar> / 1000000))
          \<and> (2 ^ 1024 - 2 ^ 970 \<le> \<bar>d\<bar> \<longrightarrow>
               fst (generate_text c req) =
                 Inl (HTTPException 500
                        ''Generation failed: int too large to convert to float'')))
       \<and> (snd (chat_completion c creq) = [rq] \<longrightarrow>
            (\<bar>d\<bar> < 2 ^ 53 \<and> 1000000 dvd d \<longrightarrow>
               (\<exists>res. fst (chat_completion c creq) = Inr res
                  \<and> c_eval_duration_ms res = real_of_int d / 1000000))
          \<and> (\<bar>d\<bar> < 2 ^ 1024 - 2 ^ 970 \<longrightarrow>
               (\<exists>res. fst (chat_completion c creq) = Inr res
                  \<and> \<bar>c_eval_duration_ms res - real_of_int d / 1000000\<bar> * 2 ^ 51
                       \<le> real_of_int \<bar>d\<bar> / 1000000))
          \<and> (2 ^ 1024 - 2 ^ 970 \<le> \<bar>d\<bar> \<longrightarrow>
               fst (chat_completion c creq) =
                 Inl (HTTPException 500
                        ''Chat completion failed: int too large to convert to float'')))
       \<and> (snd (handle_call_tool c ''generate_text'' a) = [rq] \<longrightarrow>
            fst (handle_call_tool c ''generate_text'' a) =
              Inr [TextContent ''text''
                     (Text (case rj_response r of None \<Rightarrow> [] | Some s \<Rightarrow> s))])
       \<and> (snd (handle_call_tool c ''chat_completion'' a) = [rq] \<longrightarrow>
            fst (handle_call_tool c ''chat_completion'' a) =
              Inr [TextContent ''text''
                     (Text (case rj_message r of None \<Rightarrow> []
                            | Some m \<Rightarrow> (case msg_content m of None \<Rightarrow> [] | Some s \<Rightarrow> s)))])"
proof (intro conjI impI)
  assume s: "snd (generate_text c req) = [rq]"
  note g = generate_text_duration [OF s assms]
  {
    assume "\<bar>d\<bar> < 2 ^ 53 \<and> 1000000 dvd d"
    then have "truediv_1e6 d = Inr (real_of_int d / 1000000)"
      by (simp add: truediv_1e6_exact)
    then show "\<exists>res. fst (generate_text c req) = Inr res
        \<and> g_eval_duration_ms res = real_of_int d / 1000000"
      by (simp add: g)
  }
  {
    assume "\<bar>d\<bar> < 2 ^ 1024 - 2 ^ 970"
    then obtain ms where "truediv_1e6 d = Inr ms"
      and "\<bar>ms - real_of_int d / 1000000\<bar> * 2 ^ 51 \<le> real_of_int \<bar>d\<bar> / 1000000"
      using truediv_1e6_rounds by blast
    then show "\<exists>res. fst (generate_text c req) = Inr res
        \<and> \<bar>g_eval_duration_ms res - real_of_int d / 1000000\<bar> * 2 ^ 51
             \<le> real_of_int \<bar>d\<bar> / 1000000"
      by (simp add: g)
  }
  {
    assume "2 ^ 1024 - 2 ^ 970 \<le> \<bar>d\<bar>"
    then have "truediv_1e6 d = Inl (OverflowError ''int too large to convert to float'')"
      by (rule truediv_1e6_overflow)
    then show "fst (generate_text c req) =
        Inl (HTTPException 500 ''Generation failed: int too large to convert to float'')"
      by (simp add: g)
  }
next
  assume s: "snd (chat_completion c creq) = [rq]"
  note g = chat_completion_duration [OF s assms]
  {
    assume "\<bar>d\<bar> < 2 ^ 53 \<and> 1000000 dvd d"
    then have "truediv_1e6 d = Inr (real_of_int d / 1000000)"
      by (simp add: truediv_1e6_exact)
    then show "\<exists>res. fst (chat_completion c creq) = Inr res
        \<and> c_eval_duration_ms res = real_of_int d / 1000000"
      by (simp add: g)
  }
  {
    assume "\<bar>d\<bar> < 2 ^ 1024 - 2 ^ 970"
    then obtain ms where "truediv_1e6 d = Inr ms"
      and "\<bar>ms - real_of_int d / 1000000\<bar> * 2 ^ 51 \<le> real_of_int \<bar>d\<bar> / 1000000"
      using truediv_1e6_rounds by blast
    then show "\<exists>res. fst (chat_completion c creq) = Inr res
        \<and> \<bar>c_eval_duration_ms res - real_of_int d / 1000000\<bar> * 2 ^ 51
             \<le> real_of_int \<bar>d\<bar> / 1000000"
      by (simp add: g)
  }
  {
    assume "2 ^ 1024 - 2 ^ 970 \<le> \<bar>d\<bar>"
    then have "truediv_1e6 d = Inl (OverflowError ''int too large to convert to float'')"
      by (rule truediv_1e6_overflow)
    then show "fst (chat_completion c creq) =
        Inl (HTTPException 500 ''Chat completion failed: int too large to convert to float'')"
      by (simp add: g)
  }
next
  assume "snd (handle_call_tool c ''generate_text'' a) = [rq]"
  with assms show "fst (handle_call_tool c ''generate_text'' a) =
      Inr [TextContent ''text'' (Text (case rj_response r of None \<Rightarrow> [] | Some s \<Rightarrow> s))]"
    by (simp add: fst_handle_call_tool_generate_text)
next
  assume "snd (handle_call_tool c ''chat_completion'' a) = [rq]"
  with assms show "fst (handle_call_tool c ''chat_completion'' a) =
      Inr [TextContent ''text''
             (Text (case rj_message r of None \<Rightarrow> []
                    | Some m \<Rightarrow> (case msg_content m of None \<Rightarrow> [] | Some s \<Rightarrow> s)))]"
    by (simp add: fst_handle_call_tool_chat_completion)
qed

theorem direct_eval_duration_ms_witness:
  "(\<exists>res. fst (generate_text ollama_up kg_request) = Inr res \<and> g_eval_duration_ms res = 2)
   \<and> (\<exists>res. fst (chat_completion ollama_up hello_request) = Inr res
         \<and> c_eval_duration_ms res = 2)
   \<and> fst (generate_text ollama_huge kg_request) =
       Inl (HTTPException 500 ''Generation failed: int too large to convert to float'')
   \<and> fst (chat_completion ollama_huge hello_request) =
       Inl (HTTPException 500 ''Chat completion failed: int too large to convert to float'')
   \<and> fst (handle_call_tool ollama_up ''generate_text'' kg_arguments) =
       Inr [TextContent ''text'' (Text ''Graphs represent entities as nodes.'')]
   \<and> fst (handle_call_tool ollama_up ''chat_completion'' hello_arguments) =
       Inr [TextContent ''text'' (Text ''Hello.'')]"
proof -
  have u: "\<And>rq. fetch_json ollama_up rq = Inr reply_ok"
    by (simp add: fetch_json_examples)
  have d: "rj_eval_duration reply_ok = Some 2000000"
    by (simp add: reply_ok_def)
  have h: "\<And>rq. fetch_json ollama_huge rq = Inr (reply_ok\<lparr>rj_eval_duration := Some (10 ^ 400)\<rparr>)"
    by (simp add: fetch_json_examples)
  have dh: "rj_eval_duration (reply_ok\<lparr>rj_eval_duration := Some (10 ^ 400)\<rparr>) = Some (10 ^ 400)"
    by simp
  have s1: "snd (generate_text ollama_up kg_request) =
              [hd (snd (generate_text ollama_up kg_request))]"
    "snd (generate_text ollama_huge kg_request) =
              [hd (snd (generate_text ollama_huge kg_request))]"
    by (simp_all add: snd_generate_text)
  have s2: "snd (chat_completion ollama_up hello_request) =
              [hd (snd (chat_completion ollama_up hello_request))]"
    "snd (chat_completion ollama_huge hello_request) =
              [hd (snd (chat_completion ollama_huge hello_request))]"
    by (simp_all add: snd_chat_completion)
  have s3: "snd (handle_call_tool ollama_up ''generate_text'' kg_arguments) =
              [hd (snd (handle_call_tool ollama_up ''generate_text'' kg_arguments))]"
    by (simp add: snd_handle_call_tool_generate_text)
  have s4: "snd (handle_call_tool ollama_up ''chat_completion'' hello_arguments) =
              [hd (snd (handle_call_tool ollama_up ''chat_completion'' hello_arguments))]"
    by (simp add: snd_handle_call_tool_chat_completion)
  have v: "rj_response reply_ok = Some ''Graphs represent entities as nodes.''"
    "rj_message reply_ok = Some \<lparr>msg_role = Some ''assistant'', msg_content = Some ''Hello.''\<rparr>"
    by (simp_all add: reply_ok_def)
  have n1: "\<bar>2000000 :: int\<bar> < 2 ^ 53 \<and> (1000000 :: int) dvd 2000000" by simp
  have n2: "(2 :: int) ^ 1024 - 2 ^ 970 \<le> \<bar>10 ^ 400\<bar>" by simp
  have g1: "\<exists>res. fst (generate_text ollama_up kg_request) = Inr res \<and> g_eval_duration_ms res = 2"
    using direct_eval_duration_ms [where c = ollama_up and req = kg_request
        and rq = "hd (snd (generate_text ollama_up kg_request))", OF u d] s1(1) n1
    by simp
  have g2: "\<exists>res. fst (chat_completion ollama_up hello_request) = Inr res
      \<and> c_eval_duration_ms res = 2"
    using direct_eval_duration_ms [where c = ollama_up and creq = hello_request
        and rq = "hd (snd (chat_completion ollama_up hello_request))", OF u d] s2(1) n1
    by simp
  have g3: "fst (generate_text ollama_huge kg_request) =
      Inl (HTTPException 500 ''Generation failed: int too large to convert to float'')"
    using direct_eval_duration_ms [where c = ollama_huge and req = kg_request
        and rq = "hd (snd (generate_text ollama_huge kg_request))", OF h dh] s1(2) n2
    by blast
  have g4: "fst (chat_completion ollama_huge hello_request) =
      Inl (HTTPException 500 ''Chat completion failed: int too large to convert to float'')"
    using direct_eval_duration_ms [where c = ollama_huge and creq = hello_request
        and rq = "hd (snd (chat_completion ollama_huge hello_request))", OF h dh] s2(2) n2
    by blast
  have g5: "fst (handle_call_tool ollama_up ''generate_text'' kg_arguments) =
      Inr [TextContent ''text'' (Text ''Graphs represent entities as nodes.'')]"
    using direct_eval_duration_ms [where c = ollama_up and a = kg_arguments
        and rq = "hd (snd (handle_call_tool ollama_up ''generate_text'' kg_arguments))", OF u d]
      s3 v
    by simp
  have g6: "fst (handle_call_tool ollama_up ''chat_completion'' hello_arguments) =
      Inr [TextContent ''text'' (Text ''Hello.'')]"
    using direct_eval_duration_ms [where c = ollama_up and a = hello_arguments
        and rq = "hd (snd (handle_call_tool ollama_up ''chat_completion'' hello_arguments))",
        OF u d] s4 v
    by simp
  from g1 g2 g3 g4 g5 g6 show ?thesis by blast
qed

section \<open>Equivalence of the two transports\<close>

text \<open>
  Claim C8, as stated, fails for a backend reply whose \<^verbatim>\<open>eval_duration\<close> is too large
  for a float: with \<open>10\<^sup>4\<^sup>0\<^sup>0\<close> both transports issue the same request and receive the
  same reply, the tool-style transport returns the response text, and the direct
  transport fails with status 500, because only the direct endpoint computes the
  duration quotient, inside its \<^verbatim>\<open>try\<close> block.
\<close>

theorem transport_divergence_on_overflow:
  "fetch_json ollama_huge (hd (snd (post_generate ollama_huge kg_arguments))) =
     Inr (reply_ok\<lparr>rj_eval_duration := Some (10 ^ 400)\<rparr>)
   \<and> snd (handle_call_tool ollama_huge ''generate_text'' kg_arguments) =
       snd (post_generate ollama_huge kg_arguments)
   \<and> fst (handle_call_tool ollama_huge ''generate_text'' kg_arguments) =
       Inr [TextContent ''text'' (Text ''Graphs represent entities as nodes.'')]
   \<and> fst (post_generate ollama_huge kg_arguments) =
       Inl (HTTPException 500 ''Generation failed: int too large to convert to float'')"
proof -
  have p: "arg_prompt kg_arguments = Some ''What is a knowledge graph?''"
    by (simp add: kg_arguments_def)
  have "snd (handle_call_tool ollama_huge ''generate_text'' kg_arguments) =
      snd (post_generate ollama_huge kg_arguments)"
    by (simp add: post_generate_present [OF p] snd_generate_text
          snd_handle_call_tool_generate_text simple_payloads_eq_mcp p)
  moreover have "fst (handle_call_tool ollama_huge ''generate_text'' kg_arguments) =
      Inr [TextContent ''text'' (Text ''Graphs represent entities as nodes.'')]"
    by (simp add: fst_handle_call_tool_generate_text fetch_json_examples reply_ok_def)
  moreover have "fst (post_generate ollama_huge kg_arguments) =
      Inl (HTTPException 500 ''Generation failed: int too large to convert to float'')"
    by (simp add: post_generate_present [OF p] fst_generate_text fetch_json_examples
          truediv_1e6_examples reply_ok_def del: power_numeral)
  ultimately show ?thesis
    by (simp add: fetch_json_examples)
qed

text \<open>
  Claim C8, amended. Given the same arguments, with the required field present, and a
  backend that answers the request with an object \<open>r\<close> whose \<^verbatim>\<open>eval_duration\<close>, when
  present, is smaller in magnitude than \<open>2\<^sup>1\<^sup>0\<^sup>2\<^sup>4 - 2\<^sup>9\<^sup>7\<^sup>0\<close> (so that it converts to a
  float): both transports issue the same request, the text returned by the
  \<^verbatim>\<open>generate_text\<close> tool is the \<^verbatim>\<open>text\<close> field returned by \<^verbatim>\<open>POST /generate\<close>, and the
  text returned by the \<^verbatim>\<open>chat_completion\<close> tool is the content of the message returned
  by \<^verbatim>\<open>POST /chat\<close> (the empty string when the message has no content).
\<close>

theorem transport_equivalence:
  assumes "fetch_json c rq = Inr r"
    and "\<forall>d. rj_eval_duration r = Some d \<longrightarrow> \<bar>d\<bar> < 2 ^ 1024 - 2 ^ 970"
  shows "(arg_prompt body = Some p \<and> snd (post_generate c body) = [rq] \<longrightarrow>
            snd (handle_call_tool c ''generate_text'' body) = [rq]
            \<and> (\<exists>res. fst (post_generate c body) = Inr res
                  \<and> fst (handle_call_tool c ''generate_text'' body) =
                      Inr [TextContent ''text'' (Text (g_text res))]))
       \<and> (arg_messages body = Some ms \<and> snd (post_chat c body) = [rq] \<longrightarrow>
            snd (handle_call_tool c ''chat_completion'' body) = [rq]
            \<and> (\<exists>res. fst (post_chat c body) = Inr res
                  \<and> fst (handle_call_tool c ''chat_completion'' body) =
                      Inr [TextContent ''text''
                             (Text (case msg_content (c_message res) of
                                      None \<Rightarrow> [] | Some s \<Rightarrow> s))]))"
proof (intro conjI impI)
  obtain dur where dur:
    "truediv_1e6 (case rj_eval_duration r of None \<Rightarrow> 0 | Some d \<Rightarrow> d) = Inr dur"
    using truediv_1e6_defined [OF assms(2)] by blast
  {
    assume a: "arg_prompt body = Some p \<and> snd (post_generate c body) = [rq]"
    then have p: "arg_prompt body = Some p" and q: "snd (post_generate c body) = [rq]"
      by simp_all
    from q have s: "snd (handle_call_tool c ''generate_text'' body) = [rq]"
      by (simp add: post_generate_present [OF p] p snd_generate_text
            snd_handle_call_tool_generate_text simple_payloads_eq_mcp)
    then show "snd (handle_call_tool c ''generate_text'' body) = [rq]" .
    from q have q': "snd (generate_text c
           \<lparr>gr_prompt = p,
            gr_model = (case arg_model body of None \<Rightarrow> ''llama3.2:latest'' | Some m \<Rightarrow> m),
            gr_temperature = (case arg_temperature body of None \<Rightarrow> 7 / 10 | Some t \<Rightarrow> t),
            gr_max_tokens = arg_max_tokens body,
            gr_context = arg_context body,
            gr_system_prompt = arg_system_prompt body\<rparr>) = [rq]"
      by (simp add: post_generate_present [OF p])
    from s q' assms(1) dur show "\<exists>res. fst (post_generate c body) = Inr res
        \<and> fst (handle_call_tool c ''generate_text'' body) =
            Inr [TextContent ''text'' (Text (g_text res))]"
      by (simp add: post_generate_present [OF p] fst_generate_text
            fst_handle_call_tool_generate_text)
  }
  {
    assume a: "arg_messages body = Some ms \<and> snd (post_chat c body) = [rq]"
    then have p: "arg_messages body = Some ms" and q: "snd (post_chat c body) = [rq]"
      by simp_all
    from q have s: "snd (handle_call_tool c ''chat_completion'' body) = [rq]"
      by (simp add: post_chat_present [OF p] p snd_chat_completion
            snd_handle_call_tool_chat_completion simple_payloads_eq_mcp)
    then show "snd (handle_call_tool c ''chat_completion'' body) = [rq]" .
    from q have q': "snd (chat_completion c
           \<lparr>cr_messages = ms,
            cr_model = (case arg_model body of None \<Rightarrow> ''llama3.2:latest'' | Some m \<Rightarrow> m),
            cr_temperature = (case arg_temperature body of None \<Rightarrow> 7 / 10 | Some t \<Rightarrow> t),
            cr_max_tokens = arg_max_tokens body\<rparr>) = [rq]"
      by (simp add: post_chat_present [OF p])
    from s q' assms(1) dur show "\<exists>res. fst (post_chat c body) = Inr res
        \<and> fst (handle_call_tool c ''chat_completion'' body) =
            Inr [TextContent ''text''
                   (Text (case msg_content (c_message res) of None \<Rightarrow> [] | Some s \<Rightarrow> s))]"
      by (simp add: post_chat_present [OF p] fst_chat_completion
            fst_handle_call_tool_chat_completion split: option.splits)
  }
qed

theorem transport_equivalence_witness:
  "snd (handle_call_tool ollama_up ''generate_text'' kg_arguments) =
     snd (post_generate ollama_up kg_arguments)
   \<and> (\<exists>res. fst (post_generate ollama_up kg_arguments) = Inr res
         \<and> fst (handle_call_tool ollama_up ''generate_text'' kg_arguments) =
             Inr [TextContent ''text'' (Text (g_text res))])
   \<and> snd (handle_call_tool ollama_up ''chat_completion'' hello_arguments) =
       snd (post_chat ollama_up hello_arguments)
   \<and> (\<exists>res. fst (post_chat ollama_up hello_arguments) = Inr res
         \<and> fst (handle_call_tool ollama_up ''chat_completion'' hello_arguments) =
             Inr [TextContent ''text''
                    (Text (case msg_content (c_message res) of None \<Rightarrow> [] | Some s \<Rightarrow> s))])"
proof -
  have u: "\<And>rq. fetch_json ollama_up rq = Inr reply_ok"
    by (simp add: fetch_json_examples)
  have d: "\<forall>d. rj_eval_duration reply_ok = Some d \<longrightarrow> \<bar>d\<bar> < 2 ^ 1024 - 2 ^ 970"
    by (simp add: reply_ok_def)
  have p1: "arg_prompt kg_arguments = Some ''What is a knowledge graph?''"
    by (simp add: kg_arguments_def)
  have p2: "arg_messages hello_arguments = Some [\<lparr>role = ''user'', content = ''Hi''\<rparr>]"
    by (simp add: hello_arguments_def)
  have s1: "snd (post_generate ollama_up kg_arguments) =
              [hd (snd (post_generate ollama_up kg_arguments))]"
    by (simp add: post_generate_present [OF p1] snd_generate_text)
  have s2: "snd (post_chat ollama_up hello_arguments) =
              [hd (snd (post_chat ollama_up hello_arguments))]"
    by (simp add: post_chat_present [OF p2] snd_chat_completion)
  show ?thesis
    using
      transport_equivalence [where c = ollama_up and body = kg_arguments
        and p = "''What is a knowledge graph?''"
        and rq = "hd (snd (post_generate ollama_up kg_arguments))", OF u d]
      transport_equivalence [where c = ollama_up and body = hello_arguments
        and ms = "[\<lparr>role = ''user'', content = ''Hi''\<rparr>]"
        and rq = "hd (snd (post_chat ollama_up hello_arguments))", OF u d]
      p1 p2 s1 s2
    by simp
qed

end
